theory Spec2Isabelle
  imports Complex_Main
begin

section \<open>Data model of SceneManager.cpp\<close>

text \<open>
  The scene manager of \<^verbatim>\<open>Source/SceneManager.cpp\<close> keeps a fixed array of texture
  entries, a count of the entries in use, a vector of materials and a pointer to the
  shader manager. Everything it does beyond that is a call to an external collaborator:
  the image decoder (stb_image), the OpenGL API, the shader manager's uniform setters
  and the mesh provider. The model records each such call, in program order, in a trace.

  C++ \<^verbatim>\<open>float\<close> values are idealised as real numbers throughout.
\<close>

datatype vec2 = vec2 real real
datatype vec3 = vec3 real real real
datatype vec4 = vec4 real real real real

text \<open>A \<^verbatim>\<open>glm::mat4\<close> is column-major: four columns, each a \<^verbatim>\<open>vec4\<close>.\<close>

datatype mat4 = mat4 vec4 vec4 vec4 vec4

record OBJECT_MATERIAL =
  ambientColor :: vec3
  ambientStrength :: real
  diffuseColor :: vec3
  specularColor :: vec3
  shininess :: real
  tag :: string

record TEXTURE_INFO =
  ID :: nat
  tag :: string

datatype mesh_kind =
  BoxMesh | PlaneMesh | CylinderMesh | ConeMesh | PrismMesh | Pyramid4Mesh
  | SphereMesh | TaperedCylinderMesh | TorusMesh

datatype gl_format = GL_RGB8 | GL_RGBA8

datatype gl_pname =
  GL_TEXTURE_WRAP_S | GL_TEXTURE_WRAP_T | GL_TEXTURE_MIN_FILTER | GL_TEXTURE_MAG_FILTER

datatype gl_pvalue = GL_REPEAT | GL_LINEAR

text \<open>
  One constructor for each external call the source makes. The \<^verbatim>\<open>set...Value\<close>
  constructors are the uniform pushes of the shader manager, keyed by uniform name.
\<close>

datatype event =
    stbi_set_flip_vertically_on_load bool
  | stbi_load string
  | stbi_image_free
  | cout_loaded string int int int
  | cout_not_implemented int
  | cout_could_not_load string
  | glGenTextures nat
  | glDeleteTextures nat
  | glBindTexture nat
  | glTexParameteri gl_pname gl_pvalue
  | glTexImage2D gl_format int int
  | glGenerateMipmap
  | glActiveTexture nat
  | setIntValue string int
  | setBoolValue string bool
  | setFloatValue string real
  | setVec2Value string vec2
  | setVec3Value string vec3
  | setVec4Value string vec4
  | setMat4Value string mat4
  | setSampler2DValue string int
  | LoadMesh mesh_kind
  | DrawMesh mesh_kind

text \<open>
  The object state, followed by the two parts of the outside world the methods act on:
  the texture names the GL context has generated and not deleted, and the trace of
  external calls. A pointer is an address; \<open>NULL\<close> is address 0. The array
  \<^verbatim>\<open>m_textureIDs\<close> is a list whose length is the array's size.
\<close>

record SceneManager =
  m_pShaderManager :: nat
  m_textureIDs :: "TEXTURE_INFO list"
  m_loadedTextures :: int
  m_objectMaterials :: "OBJECT_MATERIAL list"
  gl_texture_names :: "nat list"
  trace :: "event list"

definition NULL :: nat where
  "NULL = 0"

text \<open>
  What C++ leaves undefined becomes a fault of the model: a call through a null
  pointer, and an access to \<^verbatim>\<open>m_textureIDs\<close> outside the array.
\<close>

datatype fault = NullPointerDereference | ArrayIndexOutOfBounds

definition emit :: "event list \<Rightarrow> SceneManager \<Rightarrow> SceneManager" where
  "emit es st = st\<lparr>trace := trace st @ es\<rparr>"

text \<open>Sequencing of fallible steps: the first fault ends the run.\<close>

definition and_then ::
  "fault + SceneManager \<Rightarrow> (SceneManager \<Rightarrow> fault + SceneManager) \<Rightarrow> fault + SceneManager" where
  "and_then r f = (case r of Inl e \<Rightarrow> Inl e | Inr st \<Rightarrow> f st)"

section \<open>Material registry\<close>

text \<open>
  The \<^verbatim>\<open>while\<close> loop of \<^verbatim>\<open>FindMaterial\<close>: on a tag match it sets \<^verbatim>\<open>bFound\<close> and copies
  five fields into the output parameter (the tag is not copied); otherwise it moves on.
  The result is the final value of the loop variables.
\<close>

function FindMaterial_loop ::
  "OBJECT_MATERIAL list \<Rightarrow> string \<Rightarrow> nat \<Rightarrow> bool \<Rightarrow> OBJECT_MATERIAL
    \<Rightarrow> nat \<times> bool \<times> OBJECT_MATERIAL" where
  "FindMaterial_loop ms tag' index bFound material =
     (if index < length ms \<and> bFound = False then
        (if OBJECT_MATERIAL.tag (ms ! index) = tag' then
           FindMaterial_loop ms tag' index True
             (material\<lparr>ambientColor := ambientColor (ms ! index),
                       ambientStrength := ambientStrength (ms ! index),
                       diffuseColor := diffuseColor (ms ! index),
                       specularColor := specularColor (ms ! index),
                       shininess := shininess (ms ! index)\<rparr>)
         else FindMaterial_loop ms tag' (index + 1) bFound material)
      else (index, bFound, material))"
  by pat_completeness auto
termination
  by (relation "measure (\<lambda>(ms, t, index, bFound, m).
        2 * (length ms - index) + (if bFound then 0 else 1))") auto

declare FindMaterial_loop.simps [simp del]

text \<open>
  \<^verbatim>\<open>FindMaterial(tag, material)\<close>: returns the \<^verbatim>\<open>bool\<close> and the output parameter.
  The source returns \<^verbatim>\<open>true\<close> after the loop whatever \<^verbatim>\<open>bFound\<close> is.
\<close>

definition FindMaterial ::
  "string \<Rightarrow> OBJECT_MATERIAL \<Rightarrow> SceneManager \<Rightarrow> bool \<times> OBJECT_MATERIAL" where
  "FindMaterial tag' material st =
     (if length (m_objectMaterials st) = 0 then (False, material)
      else (case FindMaterial_loop (m_objectMaterials st) tag' 0 False material of
              (index, bFound, material') \<Rightarrow> (True, material')))"

text \<open>
  \<^verbatim>\<open>SetShaderMaterial(materialTag)\<close>. The local \<^verbatim>\<open>OBJECT_MATERIAL material\<close> is declared
  without an initialiser, so its numeric fields are indeterminate; the model takes that
  indeterminate value as the parameter \<open>material\<close>. The five pushes go through
  \<^verbatim>\<open>m_pShaderManager\<close> without a null check.
\<close>

definition SetShaderMaterial ::
  "OBJECT_MATERIAL \<Rightarrow> string \<Rightarrow> SceneManager \<Rightarrow> fault + SceneManager" where
  "SetShaderMaterial material materialTag st =
     (if length (m_objectMaterials st) > 0 then
        (case FindMaterial materialTag material st of
           (bReturn, material') \<Rightarrow>
             if bReturn = True then
               (if m_pShaderManager st = NULL then Inl NullPointerDereference
                else Inr (emit
                  [setVec3Value ''material.ambientColor'' (ambientColor material'),
                   setFloatValue ''material.ambientStrength'' (ambientStrength material'),
                   setVec3Value ''material.diffuseColor'' (diffuseColor material'),
                   setVec3Value ''material.specularColor'' (specularColor material'),
                   setFloatValue ''material.shininess'' (shininess material')] st))
             else Inr st)
      else Inr st)"

section \<open>Texture registry\<close>

text \<open>
  Modelled from the spec: the header \<^verbatim>\<open>SceneManager.h\<close>, which declares the array
  \<^verbatim>\<open>m_textureIDs\<close>, is not among the sources; the spec gives the slot bank 16 entries
  (slots 0 to 15).
\<close>

definition texture_slots :: nat where
  "texture_slots = 16"

text \<open>
  \<^verbatim>\<open>glGenTextures(1, &id)\<close> of the GL context: it hands out a texture name that is not
  in use (and not 0) and marks it as in use. Nothing in the source ever calls
  \<^verbatim>\<open>glDeleteTextures\<close>, so names only accumulate.
\<close>

definition glGenTextures1 :: "SceneManager \<Rightarrow> nat \<times> SceneManager" where
  "glGenTextures1 st =
     (let n = Suc (fold max (gl_texture_names st) 0)
      in (n, st\<lparr>gl_texture_names := gl_texture_names st @ [n],
                 trace := trace st @ [glGenTextures n]\<rparr>))"

text \<open>
  \<^verbatim>\<open>CreateGLTexture(filename, tag)\<close>. The decoder is external: \<open>decode filename\<close> is
  \<open>None\<close> when \<^verbatim>\<open>stbi_load\<close> returns a null image, and otherwise the width, height and
  channel count it reports. The registration writes \<^verbatim>\<open>m_textureIDs[m_loadedTextures]\<close>
  with no bounds check; outside the array that is a fault.
\<close>

definition CreateGLTexture ::
  "(string \<Rightarrow> (int \<times> int \<times> int) option) \<Rightarrow> string \<Rightarrow> string \<Rightarrow> SceneManager
    \<Rightarrow> fault + (bool \<times> SceneManager)" where
  "CreateGLTexture decode filename tag' st =
     (let st1 = emit [stbi_set_flip_vertically_on_load True, stbi_load filename] st in
      case decode filename of
        None \<Rightarrow> Inr (False, emit [cout_could_not_load filename] st1)
      | Some (width, height, colorChannels) \<Rightarrow>
          (case glGenTextures1 (emit [cout_loaded filename width height colorChannels] st1) of
             (textureID, st2) \<Rightarrow>
               (let st3 = emit [glBindTexture textureID,
                                glTexParameteri GL_TEXTURE_WRAP_S GL_REPEAT,
                                glTexParameteri GL_TEXTURE_WRAP_T GL_REPEAT,
                                glTexParameteri GL_TEXTURE_MIN_FILTER GL_LINEAR,
                                glTexParameteri GL_TEXTURE_MAG_FILTER GL_LINEAR] st2 in
                case (if colorChannels = 3 then Some GL_RGB8
                      else if colorChannels = 4 then Some GL_RGBA8
                      else None) of
                  None \<Rightarrow> Inr (False, emit [cout_not_implemented colorChannels] st3)
                | Some format \<Rightarrow>
                    (let st4 = emit [glTexImage2D format width height, glGenerateMipmap,
                                     stbi_image_free, glBindTexture 0] st3;
                         n = m_loadedTextures st4 in
                     if 0 \<le> n \<and> nat n < length (m_textureIDs st4) then
                       Inr (True,
                            st4\<lparr>m_textureIDs := (m_textureIDs st4)
                                   [nat n := (m_textureIDs st4 ! nat n)
                                               \<lparr>ID := textureID, tag := tag'\<rparr>],
                                m_loadedTextures := n + 1\<rparr>)
                     else Inl ArrayIndexOutOfBounds))))"

text \<open>\<^verbatim>\<open>BindGLTextures()\<close>: entry \<open>i\<close> is bound to texture unit \<open>GL_TEXTURE0 + i\<close>.\<close>

function BindGLTextures_loop :: "nat \<Rightarrow> SceneManager \<Rightarrow> fault + SceneManager" where
  "BindGLTextures_loop i st =
     (if int i < m_loadedTextures st then
        (if i < length (m_textureIDs st) then
           BindGLTextures_loop (i + 1)
             (emit [glActiveTexture i, glBindTexture (ID (m_textureIDs st ! i))] st)
         else Inl ArrayIndexOutOfBounds)
      else Inr st)"
  by pat_completeness auto
termination
  by (relation "measure (\<lambda>(i, st). nat (m_loadedTextures st - int i))")
     (auto simp: emit_def)

declare BindGLTextures_loop.simps [simp del]

definition BindGLTextures :: "SceneManager \<Rightarrow> fault + SceneManager" where
  "BindGLTextures st = BindGLTextures_loop 0 st"

text \<open>
  \<^verbatim>\<open>DestroyGLTextures()\<close>: for each entry in use the source calls
  \<^verbatim>\<open>glGenTextures(1, &m_textureIDs[i].ID)\<close>, which stores a newly generated name in
  the entry. \<^verbatim>\<open>m_loadedTextures\<close> is not written.
\<close>

function DestroyGLTextures_loop :: "nat \<Rightarrow> SceneManager \<Rightarrow> fault + SceneManager" where
  "DestroyGLTextures_loop i st =
     (if int i < m_loadedTextures st then
        (if i < length (m_textureIDs st) then
           (case glGenTextures1 st of
              (n, st1) \<Rightarrow>
                DestroyGLTextures_loop (i + 1)
                  (st1\<lparr>m_textureIDs := (m_textureIDs st1)
                          [i := (m_textureIDs st1 ! i)\<lparr>ID := n\<rparr>]\<rparr>))
         else Inl ArrayIndexOutOfBounds)
      else Inr st)"
  by pat_completeness auto
termination
  by (relation "measure (\<lambda>(i, st). nat (m_loadedTextures st - int i))")
     (auto simp: glGenTextures1_def Let_def)

declare DestroyGLTextures_loop.simps [simp del]

definition DestroyGLTextures :: "SceneManager \<Rightarrow> fault + SceneManager" where
  "DestroyGLTextures st = DestroyGLTextures_loop 0 st"

text \<open>
  The \<^verbatim>\<open>while\<close> loop of \<^verbatim>\<open>FindTextureSlot\<close>; \<open>index\<close> starts at 0 and only grows, so
  it is a natural number. The result is the final \<^verbatim>\<open>textureSlot\<close>.
\<close>

function FindTextureSlot_loop ::
  "SceneManager \<Rightarrow> string \<Rightarrow> nat \<Rightarrow> bool \<Rightarrow> int \<Rightarrow> fault + int" where
  "FindTextureSlot_loop st tag' index bFound textureSlot =
     (if int index < m_loadedTextures st \<and> bFound = False then
        (if index < length (m_textureIDs st) then
           (if tag (m_textureIDs st ! index) = tag' then
              FindTextureSlot_loop st tag' index True (int index)
            else FindTextureSlot_loop st tag' (index + 1) bFound textureSlot)
         else Inl ArrayIndexOutOfBounds)
      else Inr textureSlot)"
  by pat_completeness auto
termination
  by (relation "measure (\<lambda>(st, t, index, bFound, slot).
        2 * nat (m_loadedTextures st - int index) + (if bFound then 0 else 1))") auto

declare FindTextureSlot_loop.simps [simp del]

definition FindTextureSlot :: "string \<Rightarrow> SceneManager \<Rightarrow> fault + int" where
  "FindTextureSlot tag' st = FindTextureSlot_loop st tag' 0 False (- 1)"

section \<open>The GLM functions used by the transform\<close>

text \<open>
  GLM is an external library. The definitions follow its templates
  (\<^verbatim>\<open>glm/gtx/transform.inl\<close>, \<^verbatim>\<open>glm/ext/matrix_transform.inl\<close>,
  \<^verbatim>\<open>glm/detail/type_mat4x4.inl\<close>), over the reals. \<^verbatim>\<open>glm::radians\<close> multiplies by the
  floating-point value of \<open>pi / 180\<close>.
\<close>

fun vec4_scaled :: "vec4 \<Rightarrow> real \<Rightarrow> vec4" where
  "vec4_scaled (vec4 x y z w) s = vec4 (x * s) (y * s) (z * s) (w * s)"

fun vec4_add :: "vec4 \<Rightarrow> vec4 \<Rightarrow> vec4" where
  "vec4_add (vec4 x y z w) (vec4 x' y' z' w') = vec4 (x + x') (y + y') (z + z') (w + w')"

text \<open>\<^verbatim>\<open>mat4(1.0f)\<close>: the value on the diagonal, 0 elsewhere.\<close>

definition mat4_diag :: "real \<Rightarrow> mat4" where
  "mat4_diag d = mat4 (vec4 d 0 0 0) (vec4 0 d 0 0) (vec4 0 0 d 0) (vec4 0 0 0 d)"

text \<open>
  \<^verbatim>\<open>operator*(mat4, mat4)\<close>: column \<open>i\<close> of the product is the combination of the
  columns of the left factor with the entries of column \<open>i\<close> of the right factor.
\<close>

fun mat4_col_times :: "mat4 \<Rightarrow> vec4 \<Rightarrow> vec4" where
  "mat4_col_times (mat4 SrcA0 SrcA1 SrcA2 SrcA3) (vec4 b0 b1 b2 b3) =
     vec4_add (vec4_add (vec4_add (vec4_scaled SrcA0 b0) (vec4_scaled SrcA1 b1))
                        (vec4_scaled SrcA2 b2))
              (vec4_scaled SrcA3 b3)"

instantiation mat4 :: times
begin

definition times_mat4 :: "mat4 \<Rightarrow> mat4 \<Rightarrow> mat4" where
  "times_mat4 m1 m2 =
     (case m2 of mat4 SrcB0 SrcB1 SrcB2 SrcB3 \<Rightarrow>
        mat4 (mat4_col_times m1 SrcB0) (mat4_col_times m1 SrcB1)
             (mat4_col_times m1 SrcB2) (mat4_col_times m1 SrcB3))"

instance ..

end

definition glm_radians :: "real \<Rightarrow> real" where
  "glm_radians degrees = degrees * (pi / 180)"

fun glm_normalize :: "vec3 \<Rightarrow> vec3" where
  "glm_normalize (vec3 x y z) =
     (let inversesqrt = 1 / sqrt (x * x + y * y + z * z)
      in vec3 (x * inversesqrt) (y * inversesqrt) (z * inversesqrt))"

fun glm_translate_m :: "mat4 \<Rightarrow> vec3 \<Rightarrow> mat4" where
  "glm_translate_m (mat4 m0 m1 m2 m3) (vec3 v0 v1 v2) =
     mat4 m0 m1 m2
       (vec4_add (vec4_add (vec4_add (vec4_scaled m0 v0) (vec4_scaled m1 v1))
                           (vec4_scaled m2 v2)) m3)"

fun glm_scale_m :: "mat4 \<Rightarrow> vec3 \<Rightarrow> mat4" where
  "glm_scale_m (mat4 m0 m1 m2 m3) (vec3 v0 v1 v2) =
     mat4 (vec4_scaled m0 v0) (vec4_scaled m1 v1) (vec4_scaled m2 v2) m3"

fun glm_rotate_m :: "mat4 \<Rightarrow> real \<Rightarrow> vec3 \<Rightarrow> mat4" where
  "glm_rotate_m (mat4 m0 m1 m2 m3) angle v =
     (let c = cos angle; s = sin angle in
      case glm_normalize v of
        vec3 axis0 axis1 axis2 \<Rightarrow>
          (let temp0 = (1 - c) * axis0;
               temp1 = (1 - c) * axis1;
               temp2 = (1 - c) * axis2;
               Rotate00 = c + temp0 * axis0;
               Rotate01 = temp0 * axis1 + s * axis2;
               Rotate02 = temp0 * axis2 - s * axis1;
               Rotate10 = temp1 * axis0 - s * axis2;
               Rotate11 = c + temp1 * axis1;
               Rotate12 = temp1 * axis2 + s * axis0;
               Rotate20 = temp2 * axis0 + s * axis1;
               Rotate21 = temp2 * axis1 - s * axis0;
               Rotate22 = c + temp2 * axis2
           in mat4
                (vec4_add (vec4_add (vec4_scaled m0 Rotate00) (vec4_scaled m1 Rotate01))
                          (vec4_scaled m2 Rotate02))
                (vec4_add (vec4_add (vec4_scaled m0 Rotate10) (vec4_scaled m1 Rotate11))
                          (vec4_scaled m2 Rotate12))
                (vec4_add (vec4_add (vec4_scaled m0 Rotate20) (vec4_scaled m1 Rotate21))
                          (vec4_scaled m2 Rotate22))
                m3))"

text \<open>The one-argument forms of \<^verbatim>\<open>glm/gtx/transform.hpp\<close> start from the identity.\<close>

definition glm_translate :: "vec3 \<Rightarrow> mat4" where
  "glm_translate v = glm_translate_m (mat4_diag 1) v"

definition glm_scale :: "vec3 \<Rightarrow> mat4" where
  "glm_scale v = glm_scale_m (mat4_diag 1) v"

definition glm_rotate :: "real \<Rightarrow> vec3 \<Rightarrow> mat4" where
  "glm_rotate angle v = glm_rotate_m (mat4_diag 1) angle v"

section \<open>Shader state setters\<close>

definition g_ModelName :: string where "g_ModelName = ''model''"
definition g_ColorValueName :: string where "g_ColorValueName = ''objectColor''"
definition g_TextureValueName :: string where "g_TextureValueName = ''objectTexture''"
definition g_UseTextureName :: string where "g_UseTextureName = ''bUseTexture''"
definition g_UseLightingName :: string where "g_UseLightingName = ''bUseLighting''"

text \<open>The matrix \<^verbatim>\<open>modelView\<close> that \<^verbatim>\<open>SetTransformations\<close> computes before the push.\<close>

definition modelView :: "vec3 \<Rightarrow> real \<Rightarrow> real \<Rightarrow> real \<Rightarrow> vec3 \<Rightarrow> mat4" where
  "modelView scaleXYZ XrotationDegrees YrotationDegrees ZrotationDegrees positionXYZ =
     (let scale = glm_scale scaleXYZ;
          rotationX = glm_rotate (glm_radians XrotationDegrees) (vec3 1 0 0);
          rotationY = glm_rotate (glm_radians YrotationDegrees) (vec3 0 1 0);
          rotationZ = glm_rotate (glm_radians ZrotationDegrees) (vec3 0 0 1);
          translation = glm_translate positionXYZ
      in translation * rotationX * rotationY * rotationZ * scale)"

definition SetTransformations ::
  "vec3 \<Rightarrow> real \<Rightarrow> real \<Rightarrow> real \<Rightarrow> vec3 \<Rightarrow> SceneManager \<Rightarrow> SceneManager" where
  "SetTransformations scaleXYZ XrotationDegrees YrotationDegrees ZrotationDegrees
       positionXYZ st =
     (if NULL \<noteq> m_pShaderManager st then
        emit [setMat4Value g_ModelName
                (modelView scaleXYZ XrotationDegrees YrotationDegrees ZrotationDegrees
                   positionXYZ)] st
      else st)"

text \<open>\<^verbatim>\<open>setIntValue(g_UseTextureName, false)\<close> passes the \<^verbatim>\<open>bool\<close> as the integer 0.\<close>

definition SetShaderColor :: "real \<Rightarrow> real \<Rightarrow> real \<Rightarrow> real \<Rightarrow> SceneManager \<Rightarrow> SceneManager" where
  "SetShaderColor redColorValue greenColorValue blueColorValue alphaValue st =
     (let currentColor = vec4 redColorValue greenColorValue blueColorValue alphaValue in
      if NULL \<noteq> m_pShaderManager st then
        emit [setIntValue g_UseTextureName 0, setVec4Value g_ColorValueName currentColor] st
      else st)"

definition SetShaderTexture :: "string \<Rightarrow> SceneManager \<Rightarrow> fault + SceneManager" where
  "SetShaderTexture textureTag st =
     (if NULL \<noteq> m_pShaderManager st then
        (let st1 = emit [setIntValue g_UseTextureName 1] st in
         case FindTextureSlot textureTag st1 of
           Inl e \<Rightarrow> Inl e
         | Inr textureID \<Rightarrow> Inr (emit [setSampler2DValue g_TextureValueName textureID] st1))
      else Inr st)"

definition SetTextureUVScale :: "real \<Rightarrow> real \<Rightarrow> SceneManager \<Rightarrow> SceneManager" where
  "SetTextureUVScale u v st =
     (if NULL \<noteq> m_pShaderManager st then emit [setVec2Value ''UVscale'' (vec2 u v)] st
      else st)"

section \<open>Scene preparation\<close>

text \<open>A call whose \<^verbatim>\<open>bool\<close> result the caller assigns and never reads.\<close>

definition ignore_result :: "fault + (bool \<times> SceneManager) \<Rightarrow> fault + SceneManager" where
  "ignore_result r = (case r of Inl e \<Rightarrow> Inl e | Inr (bReturn, st) \<Rightarrow> Inr st)"

definition LoadSceneTextures ::
  "(string \<Rightarrow> (int \<times> int \<times> int) option) \<Rightarrow> SceneManager \<Rightarrow> fault + SceneManager" where
  "LoadSceneTextures decode st =
     and_then (ignore_result
       (CreateGLTexture decode ''../../Utilities/textures/green_apple.jpg'' ''apple'' st))
     (\<lambda>st. and_then (ignore_result
       (CreateGLTexture decode ''../../Utilities/textures/apple_stem.jpg'' ''stem'' st))
     (\<lambda>st. and_then (ignore_result
       (CreateGLTexture decode ''../../Utilities/textures/rusticwood.jpg'' ''table'' st))
     (\<lambda>st. and_then (ignore_result
       (CreateGLTexture decode ''../../Utilities/textures/ceramic1.jpg'' ''ceramic'' st))
     (\<lambda>st. and_then (ignore_result
       (CreateGLTexture decode ''../../Utilities/textures/white_cardboard.jpg'' ''cardboard'' st))
     BindGLTextures))))"

definition goldMaterial :: OBJECT_MATERIAL where
  "goldMaterial =
     \<lparr>ambientColor = vec3 0.2 0.2 0.1, ambientStrength = 0.4, diffuseColor = vec3 0.3 0.3 0.2,
      specularColor = vec3 0.6 0.5 0.4, shininess = 22, OBJECT_MATERIAL.tag = ''gold''\<rparr>"

definition appleMaterial :: OBJECT_MATERIAL where
  "appleMaterial =
     \<lparr>ambientColor = vec3 0.2 0.2 0.1, ambientStrength = 0.2, diffuseColor = vec3 0.3 0.3 0.2,
      specularColor = vec3 0.3 0.3 0.3, shininess = 5, OBJECT_MATERIAL.tag = ''appleskin''\<rparr>"

definition cementMaterial :: OBJECT_MATERIAL where
  "cementMaterial =
     \<lparr>ambientColor = vec3 0.2 0.2 0.2, ambientStrength = 0.2, diffuseColor = vec3 0.5 0.5 0.5,
      specularColor = vec3 0.4 0.4 0.4, shininess = 0.5, OBJECT_MATERIAL.tag = ''cement''\<rparr>"

definition woodMaterial :: OBJECT_MATERIAL where
  "woodMaterial =
     \<lparr>ambientColor = vec3 0.2 0.2 0.2, ambientStrength = 0.2, diffuseColor = vec3 0.3 0.3 0.3,
      specularColor = vec3 0.4 0.4 0.4, shininess = 0.3, OBJECT_MATERIAL.tag = ''wood''\<rparr>"

definition polishwoodMaterial :: OBJECT_MATERIAL where
  "polishwoodMaterial =
     \<lparr>ambientColor = vec3 0.4 0.3 0.1, ambientStrength = 0.2, diffuseColor = vec3 0.3 0.2 0.1,
      specularColor = vec3 0.1 0.1 0.1, shininess = 11, OBJECT_MATERIAL.tag = ''polishWood''\<rparr>"

definition tileMaterial :: OBJECT_MATERIAL where
  "tileMaterial =
     \<lparr>ambientColor = vec3 0.2 0.3 0.4, ambientStrength = 0.3, diffuseColor = vec3 0.3 0.2 0.1,
      specularColor = vec3 0.4 0.5 0.6, shininess = 25, OBJECT_MATERIAL.tag = ''tile''\<rparr>"

definition glassMaterial :: OBJECT_MATERIAL where
  "glassMaterial =
     \<lparr>ambientColor = vec3 0.4 0.4 0.4, ambientStrength = 0.3, diffuseColor = vec3 0.3 0.3 0.3,
      specularColor = vec3 0.6 0.6 0.6, shininess = 85, OBJECT_MATERIAL.tag = ''glass''\<rparr>"

definition clayMaterial :: OBJECT_MATERIAL where
  "clayMaterial =
     \<lparr>ambientColor = vec3 0.2 0.2 0.3, ambientStrength = 0.3, diffuseColor = vec3 0.4 0.4 0.5,
      specularColor = vec3 0.2 0.2 0.4, shininess = 0.5, OBJECT_MATERIAL.tag = ''clay''\<rparr>"

definition polishclayMaterial :: OBJECT_MATERIAL where
  "polishclayMaterial =
     \<lparr>ambientColor = vec3 0.4 0.3 0.1, ambientStrength = 0.2, diffuseColor = vec3 0.3 0.2 0.1,
      specularColor = vec3 0.1 0.1 0.1, shininess = 30, OBJECT_MATERIAL.tag = ''polishClay''\<rparr>"

definition DefineObjectMaterials :: "SceneManager \<Rightarrow> SceneManager" where
  "DefineObjectMaterials st =
     st\<lparr>m_objectMaterials := m_objectMaterials st @
          [goldMaterial, appleMaterial, cementMaterial, woodMaterial, polishwoodMaterial,
           tileMaterial, glassMaterial, clayMaterial, polishclayMaterial]\<rparr>"

text \<open>\<^verbatim>\<open>SetupSceneLights()\<close> calls through \<^verbatim>\<open>m_pShaderManager\<close> without a null check.\<close>

definition SetupSceneLights :: "SceneManager \<Rightarrow> fault + SceneManager" where
  "SetupSceneLights st =
     (if m_pShaderManager st = NULL then Inl NullPointerDereference
      else Inr (emit
          [setBoolValue g_UseLightingName True,
           setVec3Value ''lightSources[0].position'' (vec3 3 14 0),
           setVec3Value ''lightSources[0].ambientColor'' (vec3 0.01 0.01 0.01),
           setVec3Value ''lightSources[0].diffuseColor'' (vec3 0.4 0.4 0.4),
           setVec3Value ''lightSources[0].specularColor'' (vec3 0.1 0.1 0.1),
           setFloatValue ''lightSources[0].focalStrength'' 32,
           setFloatValue ''lightSources[0].specularIntensity'' 0.05,
           setVec3Value ''lightSources[1].position'' (vec3 (-3) 14 0),
           setVec3Value ''lightSources[1].ambientColor'' (vec3 0.01 0.01 0.01),
           setVec3Value ''lightSources[1].diffuseColor'' (vec3 0.4 0.4 0.4),
           setVec3Value ''lightSources[1].specularColor'' (vec3 0 0 0),
           setFloatValue ''lightSources[1].focalStrength'' 32,
           setFloatValue ''lightSources[1].specularIntensity'' 0.05,
           setVec3Value ''lightSources[2].position'' (vec3 0.6 5 6),
           setVec3Value ''lightSources[2].ambientColor'' (vec3 0.01 0.01 0.01),
           setVec3Value ''lightSources[2].diffuseColor'' (vec3 0.3 0.3 0.3),
           setVec3Value ''lightSources[2].specularColor'' (vec3 0.3 0.3 0.3),
           setFloatValue ''lightSources[2].focalStrength'' 12,
           setFloatValue ''lightSources[2].specularIntensity'' 0.5,
           setVec3Value ''lightSources[3].position'' (vec3 (-0.6) 5 6),
           setVec3Value ''lightSources[3].ambientColor'' (vec3 0.01 0.01 0.01),
           setVec3Value ''lightSources[3].diffuseColor'' (vec3 0.3 0.3 0.3),
           setVec3Value ''lightSources[3].specularColor'' (vec3 0.3 0.3 0.3),
           setFloatValue ''lightSources[3].focalStrength'' 12,
           setFloatValue ''lightSources[3].specularIntensity'' 0.5,
           setBoolValue ''bUseLighting'' True] st))"

definition PrepareScene ::
  "(string \<Rightarrow> (int \<times> int \<times> int) option) \<Rightarrow> SceneManager \<Rightarrow> fault + SceneManager" where
  "PrepareScene decode st =
     and_then (LoadSceneTextures decode st)
     (\<lambda>st. and_then (SetupSceneLights (DefineObjectMaterials st))
     (\<lambda>st. Inr (emit
        [LoadMesh BoxMesh, LoadMesh PlaneMesh, LoadMesh CylinderMesh, LoadMesh ConeMesh,
         LoadMesh PrismMesh, LoadMesh Pyramid4Mesh, LoadMesh SphereMesh,
         LoadMesh TaperedCylinderMesh, LoadMesh TorusMesh] st)))"

section \<open>Rendering\<close>

text \<open>
  \<^verbatim>\<open>RenderScene()\<close> is straight-line code: a fixed sequence of calls to the setters and
  to the mesh provider, with constant arguments. The model lists the calls in source
  order and runs them one after the other.
\<close>

datatype call =
    call_SetTransformations vec3 real real real vec3
  | call_SetShaderColor real real real real
  | call_SetShaderMaterial string
  | call_SetShaderTexture string
  | call_DrawMesh mesh_kind

definition RenderScene_calls :: "call list" where
  "RenderScene_calls =
     [call_SetTransformations (vec3 20 0 10) 0 0 0 (vec3 0 1.5 0),
      call_SetShaderColor 0.9 0.8 0.7 1,
      call_SetShaderMaterial ''polishWood'',
      call_SetShaderTexture ''table'',
      call_DrawMesh PlaneMesh,
      call_SetTransformations (vec3 1 1.1 1) 0 0 (-1) (vec3 0 2.5 0),
      call_SetShaderMaterial ''appleskin'',
      call_SetShaderTexture ''apple'',
      call_DrawMesh SphereMesh,
      call_SetTransformations (vec3 0.1 1 0.1) 0 0 (-15) (vec3 0 3 0),
      call_SetShaderMaterial ''wood'',
      call_SetShaderTexture ''stem'',
      call_DrawMesh CylinderMesh,
      call_SetTransformations (vec3 1.5 2 1.5) 0 0 0 (vec3 2.5 1.5 0),
      call_SetShaderMaterial ''polishClay'',
      call_SetShaderTexture ''ceramic'',
      call_DrawMesh CylinderMesh,
      call_SetTransformations (vec3 0.5 0.325 0.5) 0 0 0 (vec3 2.5 3.85 0),
      call_SetShaderMaterial ''polishClay'',
      call_SetShaderTexture ''ceramic'',
      call_DrawMesh SphereMesh,
      call_SetTransformations (vec3 1.25 1.25 1.25) 90 0 0 (vec3 2.5 3.45 0),
      call_SetShaderMaterial ''polishClay'',
      call_SetShaderTexture ''ceramic'',
      call_DrawMesh TorusMesh,
      call_SetTransformations (vec3 1.25 0.25 1.25) 0 0 0 (vec3 2.5 3.45 0),
      call_SetShaderMaterial ''polishClay'',
      call_SetShaderTexture ''ceramic'',
      call_DrawMesh CylinderMesh,
      call_SetTransformations (vec3 4 3 3) 0 (-30) 0 (vec3 2.5 3 (-3.5)),
      call_SetShaderColor 1 1 1 1,
      call_SetShaderMaterial ''wood'',
      call_SetShaderTexture ''cardboard'',
      call_DrawMesh BoxMesh,
      call_SetTransformations (vec3 2.5 3.25 0.5) 0 25 0 (vec3 (-0.35) 3.25 (-1.5)),
      call_SetShaderColor 1 1 1 1,
      call_SetShaderMaterial ''wood'',
      call_SetShaderTexture ''cardboard'',
      call_DrawMesh BoxMesh,
      call_SetTransformations (vec3 1.5 1.5 1.5) 180 0 0 (vec3 2.5 6 (-3.5)),
      call_SetShaderColor 1 1 1 1,
      call_SetShaderMaterial ''polishClay'',
      call_SetShaderTexture ''ceramic'',
      call_DrawMesh TaperedCylinderMesh,
      call_SetTransformations (vec3 0.5 0.5 0.5) 0 0 0 (vec3 3.5 5.25 (-3.5)),
      call_SetShaderColor 1 1 1 1,
      call_SetShaderMaterial ''polishClay'',
      call_SetShaderTexture ''ceramic'',
      call_DrawMesh TorusMesh]"

text \<open>
  One call. \<open>material\<close> is the indeterminate content of the local variable of
  \<^verbatim>\<open>SetShaderMaterial\<close> at this call.
\<close>

fun exec_call :: "OBJECT_MATERIAL \<Rightarrow> call \<Rightarrow> SceneManager \<Rightarrow> fault + SceneManager" where
  "exec_call material (call_SetTransformations scaleXYZ rx ry rz positionXYZ) st =
     Inr (SetTransformations scaleXYZ rx ry rz positionXYZ st)"
| "exec_call material (call_SetShaderColor r g b a) st = Inr (SetShaderColor r g b a st)"
| "exec_call material (call_SetShaderMaterial materialTag) st =
     SetShaderMaterial material materialTag st"
| "exec_call material (call_SetShaderTexture textureTag) st = SetShaderTexture textureTag st"
| "exec_call material (call_DrawMesh kind) st = Inr (emit [DrawMesh kind] st)"

text \<open>
  The calls in order; \<open>uninit k\<close> is the indeterminate local of the \<open>k\<close>-th call.
\<close>

fun exec_calls ::
  "(nat \<Rightarrow> OBJECT_MATERIAL) \<Rightarrow> nat \<Rightarrow> call list \<Rightarrow> SceneManager \<Rightarrow> fault + SceneManager" where
  "exec_calls uninit k [] st = Inr st"
| "exec_calls uninit k (c # cs) st =
     and_then (exec_call (uninit k) c st) (exec_calls uninit (Suc k) cs)"

definition RenderScene :: "(nat \<Rightarrow> OBJECT_MATERIAL) \<Rightarrow> SceneManager \<Rightarrow> fault + SceneManager" where
  "RenderScene uninit st = exec_calls uninit 0 RenderScene_calls st"

section \<open>The specification's transform composition\<close>












section \<open>Running a sequence of texture loads\<close>

text \<open>
  \<^verbatim>\<open>CreateGLTexture\<close> called once for each (file name, tag) pair, in order, as
  \<^verbatim>\<open>LoadSceneTextures\<close> does for its five pairs. The result lists what each call returned.
\<close>

fun load_sequence ::
  "(string \<Rightarrow> (int \<times> int \<times> int) option) \<Rightarrow> (string \<times> string) list \<Rightarrow> SceneManager
    \<Rightarrow> fault + (bool list \<times> SceneManager)" where
  "load_sequence decode [] st = Inr ([], st)"
| "load_sequence decode ((filename, tag') # loads) st =
     (case CreateGLTexture decode filename tag' st of
        Inl e \<Rightarrow> Inl e
      | Inr (bReturn, st') \<Rightarrow>
          (case load_sequence decode loads st' of
             Inl e \<Rightarrow> Inl e
           | Inr (bs, st'') \<Rightarrow> Inr (bReturn # bs, st'')))"

text \<open>The tags of the entries in use, in slot order.\<close>

definition registered_tags :: "SceneManager \<Rightarrow> string list" where
  "registered_tags st = map tag (take (nat (m_loadedTextures st)) (m_textureIDs st))"

section \<open>Example states\<close>

text \<open>
  A scene manager with a non-null shader manager, the 16-entry array with no entry in
  use, no material, a GL context with no texture name in use and an empty trace.
\<close>

definition fresh_scene :: SceneManager where
  "fresh_scene =
     \<lparr>m_pShaderManager = 1,
      m_textureIDs = replicate 16 \<lparr>ID = 0, tag = []\<rparr>,
      m_loadedTextures = 0,
      m_objectMaterials = [],
      gl_texture_names = [],
      trace = []\<rparr>"

text \<open>A decoder for which every file is a 64 by 64 RGB image.\<close>

definition decode_rgb :: "string \<Rightarrow> (int \<times> int \<times> int) option" where
  "decode_rgb filename = Some (64, 64, 3)"

text \<open>A registry whose 16 slots are all in use.\<close>

definition full_scene :: SceneManager where
  "full_scene =
     fresh_scene\<lparr>m_textureIDs := map (\<lambda>i. \<lparr>ID = Suc i, tag = ''t''\<rparr>) [0..<16],
                 m_loadedTextures := 16,
                 gl_texture_names := map Suc [0..<16]\<rparr>"

text \<open>A registry with two textures in use.\<close>

definition two_textures :: SceneManager where
  "two_textures =
     fresh_scene\<lparr>m_textureIDs := [\<lparr>ID = 1, tag = ''apple''\<rparr>, \<lparr>ID = 2, tag = ''stem''\<rparr>]
                                   @ replicate 14 \<lparr>ID = 0, tag = []\<rparr>,
                 m_loadedTextures := 2,
                 gl_texture_names := [1, 2]\<rparr>"

text \<open>Two materials with the tag \<^verbatim>\<open>wood\<close> and different shininess, defined in this order.\<close>

definition second_wood :: OBJECT_MATERIAL where
  "second_wood = woodMaterial\<lparr>shininess := 7\<rparr>"

definition two_woods :: SceneManager where
  "two_woods = fresh_scene\<lparr>m_objectMaterials := [goldMaterial, woodMaterial, second_wood]\<rparr>"

text \<open>A scene manager built with a null shader manager, with one material defined.\<close>

definition null_shader_scene :: SceneManager where
  "null_shader_scene =
     two_textures\<lparr>m_pShaderManager := NULL, m_objectMaterials := [goldMaterial]\<rparr>"

section \<open>Reading call lists and traces\<close>

text \<open>The material tags that a list of calls looks up, in order.\<close>

fun material_tags :: "call list \<Rightarrow> string list" where
  "material_tags [] = []"
| "material_tags (call_SetShaderMaterial t # cs) = t # material_tags cs"
| "material_tags (c # cs) = material_tags cs"

text \<open>The mesh kinds drawn in a trace, and the mesh kinds a list of calls draws.\<close>

fun issued_draws :: "event list \<Rightarrow> mesh_kind list" where
  "issued_draws [] = []"
| "issued_draws (DrawMesh kind # es) = kind # issued_draws es"
| "issued_draws (e # es) = issued_draws es"

fun drawn_meshes :: "call list \<Rightarrow> mesh_kind list" where
  "drawn_meshes [] = []"
| "drawn_meshes (call_DrawMesh kind # cs) = kind # drawn_meshes cs"
| "drawn_meshes (c # cs) = drawn_meshes cs"

section \<open>Basic facts\<close>

lemma emit_fields [simp]:
  "m_pShaderManager (emit es st) = m_pShaderManager st"
  "m_textureIDs (emit es st) = m_textureIDs st"
  "m_loadedTextures (emit es st) = m_loadedTextures st"
  "m_objectMaterials (emit es st) = m_objectMaterials st"
  "gl_texture_names (emit es st) = gl_texture_names st"
  "trace (emit es st) = trace st @ es"
  by (simp_all add: emit_def)

subsection \<open>The material scan\<close>

lemma FindMaterial_loop_found:
  "FindMaterial_loop ms t i True out = (i, True, out)"
  by (simp add: FindMaterial_loop.simps)

lemma FindMaterial_loop_first_match:
  "find (\<lambda>m. OBJECT_MATERIAL.tag m = t) (drop i ms) = Some m \<Longrightarrow>
   snd (FindMaterial_loop ms t i False out) =
     (True, out\<lparr>ambientColor := ambientColor m, ambientStrength := ambientStrength m,
                diffuseColor := diffuseColor m, specularColor := specularColor m,
                shininess := shininess m\<rparr>)"
proof (induction "length ms - i" arbitrary: i)
  case 0
  then show ?case by simp
next
  case (Suc n)
  then have lt: "i < length ms" by simp
  have d: "drop i ms = ms ! i # drop (Suc i) ms"
    using lt by (simp add: Cons_nth_drop_Suc)
  show ?case
  proof (cases "OBJECT_MATERIAL.tag (ms ! i) = t")
    case True
    then have "m = ms ! i" using Suc.prems d by simp
    then show ?thesis using lt True
      by (subst FindMaterial_loop.simps) (simp add: FindMaterial_loop_found)
  next
    case False
    then have f: "find (\<lambda>m. OBJECT_MATERIAL.tag m = t) (drop (Suc i) ms) = Some m"
      using Suc.prems d by simp
    have "n = length ms - Suc i" using Suc.hyps(2) by simp
    from Suc.hyps(1)[OF this f] show ?thesis
      using lt False by (subst FindMaterial_loop.simps) simp
  qed
qed

lemma FindMaterial_finds_first:
  "find (\<lambda>m. OBJECT_MATERIAL.tag m = t) (m_objectMaterials st) = Some m \<Longrightarrow>
   FindMaterial t out st =
     (True, out\<lparr>ambientColor := ambientColor m, ambientStrength := ambientStrength m,
                diffuseColor := diffuseColor m, specularColor := specularColor m,
                shininess := shininess m\<rparr>)"
proof -
  assume f: "find (\<lambda>m. OBJECT_MATERIAL.tag m = t) (m_objectMaterials st) = Some m"
  then have ne: "m_objectMaterials st \<noteq> []" by auto
  from f have "find (\<lambda>m. OBJECT_MATERIAL.tag m = t) (drop 0 (m_objectMaterials st)) = Some m"
    by simp
  from FindMaterial_loop_first_match[OF this, of out] show ?thesis
    using ne by (cases "FindMaterial_loop (m_objectMaterials st) t 0 False out")
      (simp add: FindMaterial_def)
qed

lemma FindMaterial_loop_no_match:
  "\<forall>m \<in> set (drop i ms). OBJECT_MATERIAL.tag m \<noteq> t \<Longrightarrow>
   snd (FindMaterial_loop ms t i False out) = (False, out)"
proof (induction "length ms - i" arbitrary: i)
  case 0
  then show ?case by (simp add: FindMaterial_loop.simps)
next
  case (Suc n)
  then have lt: "i < length ms" by simp
  have d: "drop i ms = ms ! i # drop (Suc i) ms"
    using lt by (simp add: Cons_nth_drop_Suc)
  have ne: "OBJECT_MATERIAL.tag (ms ! i) \<noteq> t" using Suc.prems d by simp
  have rest: "\<forall>m \<in> set (drop (Suc i) ms). OBJECT_MATERIAL.tag m \<noteq> t"
    using Suc.prems d by simp
  have "n = length ms - Suc i" using Suc.hyps(2) by simp
  from Suc.hyps(1)[OF this rest] show ?case
    using lt ne by (subst FindMaterial_loop.simps) simp
qed

text \<open>
  Whatever the tag, the loop leaves the output parameter alone when nothing matches, and
  \<^verbatim>\<open>FindMaterial\<close> answers \<^verbatim>\<open>true\<close> as soon as the registry is not empty.
\<close>

lemma FindMaterial_nonempty_no_match:
  assumes "m_objectMaterials st \<noteq> []"
    and "\<forall>m \<in> set (m_objectMaterials st). OBJECT_MATERIAL.tag m \<noteq> t"
  shows "FindMaterial t out st = (True, out)"
proof -
  from assms(2) have "\<forall>m \<in> set (drop 0 (m_objectMaterials st)). OBJECT_MATERIAL.tag m \<noteq> t"
    by simp
  from FindMaterial_loop_no_match[OF this, of out] show ?thesis
    using assms(1)
    by (cases "FindMaterial_loop (m_objectMaterials st) t 0 False out")
       (simp add: FindMaterial_def)
qed

subsection \<open>The texture scan\<close>

lemma FindTextureSlot_loop_found:
  "FindTextureSlot_loop st t i True slot = Inr slot"
  by (simp add: FindTextureSlot_loop.simps)

lemma registered_tags_nth:
  "int i < m_loadedTextures st \<Longrightarrow> i < length (m_textureIDs st) \<Longrightarrow>
   registered_tags st ! i = tag (m_textureIDs st ! i)"
  by (simp add: registered_tags_def)

text \<open>
  With the count within the array, the scan never faults; it returns the index of the
  first entry in use that carries the tag, and the initial \<^verbatim>\<open>textureSlot\<close> otherwise.
\<close>

lemma FindTextureSlot_loop_scan:
  assumes "m_loadedTextures st \<le> int (length (m_textureIDs st))"
  shows "FindTextureSlot_loop st t i False slot =
     Inr (if t \<in> set (drop i (registered_tags st))
          then int (i + length (takeWhile (\<lambda>x. x \<noteq> t) (drop i (registered_tags st))))
          else slot)"
proof (induction "nat (m_loadedTextures st) - i" arbitrary: i)
  case 0
  then have "\<not> int i < m_loadedTextures st" by simp
  moreover have "drop i (registered_tags st) = []"
    using 0 by (simp add: registered_tags_def)
  ultimately show ?case by (simp add: FindTextureSlot_loop.simps)
next
  case (Suc n)
  then have lt: "int i < m_loadedTextures st" by simp
  then have il: "i < length (m_textureIDs st)" using assms by simp
  have len: "i < length (registered_tags st)"
    using lt il by (simp add: registered_tags_def)
  have d: "drop i (registered_tags st) =
      tag (m_textureIDs st ! i) # drop (Suc i) (registered_tags st)"
    using Cons_nth_drop_Suc[OF len] registered_tags_nth[OF lt il] by simp
  show ?case
  proof (cases "tag (m_textureIDs st ! i) = t")
    case True
    then show ?thesis using lt il d
      by (subst FindTextureSlot_loop.simps) (simp add: FindTextureSlot_loop_found)
  next
    case False
    have "n = nat (m_loadedTextures st) - Suc i" using Suc.hyps(2) by simp
    from Suc.hyps(1)[OF this] show ?thesis
      using lt il d False by (subst FindTextureSlot_loop.simps) simp
  qed
qed

lemma FindTextureSlot_scan:
  assumes "m_loadedTextures st \<le> int (length (m_textureIDs st))"
  shows "FindTextureSlot t st =
     Inr (if t \<in> set (registered_tags st)
          then int (length (takeWhile (\<lambda>x. x \<noteq> t) (registered_tags st)))
          else - 1)"
  using FindTextureSlot_loop_scan[OF assms, of t 0 "- 1"] by (simp add: FindTextureSlot_def)

text \<open>The scan reads the array and the count only.\<close>

lemma FindTextureSlot_loop_emit:
  "FindTextureSlot_loop (emit es st) t i b slot = FindTextureSlot_loop st t i b slot"
proof (induction st t i b slot rule: FindTextureSlot_loop.induct)
  case (1 st t i b slot)
  have L: "FindTextureSlot_loop (emit es st) t i b slot =
     (if int i < m_loadedTextures st \<and> b = False then
        (if i < length (m_textureIDs st) then
           (if tag (m_textureIDs st ! i) = t then
              FindTextureSlot_loop (emit es st) t i True (int i)
            else FindTextureSlot_loop (emit es st) t (i + 1) b slot)
         else Inl ArrayIndexOutOfBounds)
      else Inr slot)"
    by (subst FindTextureSlot_loop.simps) simp
  show ?case
    unfolding L
    by (subst (3) FindTextureSlot_loop.simps) (use 1 in auto)
qed

lemma FindTextureSlot_emit:
  "FindTextureSlot t (emit es st) = FindTextureSlot t st"
  by (simp add: FindTextureSlot_def FindTextureSlot_loop_emit)

section \<open>Material lookup\<close>

text \<open>
  Claim C1. For a non-empty material registry in which no entry carries the tag,
  \<^verbatim>\<open>FindMaterial\<close> should report not-found. The source does not: with the single
  material \<^verbatim>\<open>gold\<close> defined, \<^verbatim>\<open>FindMaterial("nonexistent", out)\<close> returns \<^verbatim>\<open>true\<close>. The
  output parameter keeps the value it had on entry.
\<close>

theorem FindMaterial_no_match_returns_true:
  "FindMaterial ''nonexistent'' out (fresh_scene\<lparr>m_objectMaterials := [goldMaterial]\<rparr>)
     = (True, out)"
  by (rule FindMaterial_nonempty_no_match) (simp_all add: goldMaterial_def)

text \<open>
  Claim C2. When the lookup finds no matching entry, \<^verbatim>\<open>SetShaderMaterial\<close> should push no
  material uniform. The source does push: with the single material \<^verbatim>\<open>gold\<close> defined and
  the tag \<^verbatim>\<open>nonexistent\<close>, \<^verbatim>\<open>FindMaterial\<close> returns \<^verbatim>\<open>true\<close>, and the five material
  uniforms are pushed with the content of the local variable that was never assigned.
\<close>

theorem SetShaderMaterial_no_match_pushes_unassigned:
  "SetShaderMaterial unassigned ''nonexistent''
       (fresh_scene\<lparr>m_objectMaterials := [goldMaterial]\<rparr>) =
     Inr (emit
       [setVec3Value ''material.ambientColor'' (ambientColor unassigned),
        setFloatValue ''material.ambientStrength'' (ambientStrength unassigned),
        setVec3Value ''material.diffuseColor'' (diffuseColor unassigned),
        setVec3Value ''material.specularColor'' (specularColor unassigned),
        setFloatValue ''material.shininess'' (shininess unassigned)]
       (fresh_scene\<lparr>m_objectMaterials := [goldMaterial]\<rparr>))"
proof -
  have "FindMaterial ''nonexistent'' unassigned
          (fresh_scene\<lparr>m_objectMaterials := [goldMaterial]\<rparr>) = (True, unassigned)"
    by (rule FindMaterial_nonempty_no_match) (simp_all add: goldMaterial_def)
  then show ?thesis
    by (simp add: SetShaderMaterial_def fresh_scene_def NULL_def)
qed

text \<open>
  Claim C8. Material lookup is first-match-wins over insertion order: when the registry
  holds an entry with the tag, \<^verbatim>\<open>FindMaterial\<close> returns \<^verbatim>\<open>true\<close> and copies the ambient
  colour, ambient strength, diffuse colour, specular colour and shininess of the first
  such entry into the output parameter; later entries with the same tag are never read.
\<close>

theorem FindMaterial_first_match_wins:
  "find (\<lambda>m. OBJECT_MATERIAL.tag m = t) (m_objectMaterials st) = Some m \<Longrightarrow>
   FindMaterial t out st =
     (True, out\<lparr>ambientColor := ambientColor m, ambientStrength := ambientStrength m,
                diffuseColor := diffuseColor m, specularColor := specularColor m,
                shininess := shininess m\<rparr>)"
proof -
  assume first: "find (\<lambda>m. OBJECT_MATERIAL.tag m = t) (m_objectMaterials st) = Some m"
  then have nonempty: "length (m_objectMaterials st) \<noteq> 0" by auto
  from first have
    "find (\<lambda>m. OBJECT_MATERIAL.tag m = t) (drop 0 (m_objectMaterials st)) = Some m"
    by simp
  then have "snd (FindMaterial_loop (m_objectMaterials st) t 0 False out) =
     (True, out\<lparr>ambientColor := ambientColor m, ambientStrength := ambientStrength m,
                diffuseColor := diffuseColor m, specularColor := specularColor m,
                shininess := shininess m\<rparr>)"
    by (rule FindMaterial_loop_first_match)
  then show ?thesis
    using nonempty
    by (cases "FindMaterial_loop (m_objectMaterials st) t 0 False out")
       (simp add: FindMaterial_def)
qed

text \<open>
  Two materials tagged \<^verbatim>\<open>wood\<close>, with shininess 0.3 and then 7: the lookup returns 0.3.
\<close>

theorem FindMaterial_first_match_wins_witness:
  "find (\<lambda>m. OBJECT_MATERIAL.tag m = ''wood'') (m_objectMaterials two_woods) = Some woodMaterial
   \<and> OBJECT_MATERIAL.tag second_wood = ''wood''
   \<and> shininess second_wood = 7
   \<and> fst (FindMaterial ''wood'' goldMaterial two_woods) = True
   \<and> shininess (snd (FindMaterial ''wood'' goldMaterial two_woods)) = 0.3"
proof -
  have f: "find (\<lambda>m. OBJECT_MATERIAL.tag m = ''wood'') (m_objectMaterials two_woods)
      = Some woodMaterial"
    by (simp add: two_woods_def fresh_scene_def goldMaterial_def woodMaterial_def second_wood_def)
  show ?thesis using f FindMaterial_first_match_wins[OF f, of goldMaterial]
    by (simp add: second_wood_def woodMaterial_def)
qed

section \<open>Texture registry\<close>

text \<open>
  Whatever the state, the loop of \<^verbatim>\<open>DestroyGLTextures\<close> leaves the count alone, keeps every
  texture name of the GL context in use, and issues nothing but \<^verbatim>\<open>glGenTextures\<close> calls.
\<close>

lemma DestroyGLTextures_loop_frees_nothing:
  "DestroyGLTextures_loop i st = Inr st' \<Longrightarrow>
   m_loadedTextures st' = m_loadedTextures st
   \<and> set (gl_texture_names st) \<subseteq> set (gl_texture_names st')
   \<and> (\<exists>es. trace st' = trace st @ es \<and> (\<forall>e \<in> set es. \<exists>n. e = glGenTextures n))"
proof (induction i st rule: DestroyGLTextures_loop.induct)
  case (1 i st)
  show ?case
  proof (cases "int i < m_loadedTextures st")
    case True
    with "1.prems" have il: "i < length (m_textureIDs st)"
      by (subst (asm) DestroyGLTextures_loop.simps) (simp split: if_splits)
    obtain n st1 where g: "glGenTextures1 st = (n, st1)" by (cases "glGenTextures1 st")
    let ?st2 = "st1\<lparr>m_textureIDs := (m_textureIDs st1)[i := (m_textureIDs st1 ! i)\<lparr>ID := n\<rparr>]\<rparr>"
    from "1.prems" True il g have r: "DestroyGLTextures_loop (i + 1) ?st2 = Inr st'"
      by (subst (asm) DestroyGLTextures_loop.simps) simp
    from g have f: "m_loadedTextures ?st2 = m_loadedTextures st"
      "gl_texture_names ?st2 = gl_texture_names st @ [n]"
      "trace ?st2 = trace st @ [glGenTextures n]"
      by (auto simp: glGenTextures1_def Let_def)
    from "1.IH"[OF True il g[symmetric] r] obtain es where
      a: "m_loadedTextures st' = m_loadedTextures ?st2"
      and b: "set (gl_texture_names ?st2) \<subseteq> set (gl_texture_names st')"
      and c: "trace st' = trace ?st2 @ es" "\<forall>e \<in> set es. \<exists>n. e = glGenTextures n"
      by blast
    have "trace st' = trace st @ (glGenTextures n # es)" using c(1) f(3) by simp
    moreover have "\<forall>e \<in> set (glGenTextures n # es). \<exists>n. e = glGenTextures n"
      using c(2) by simp
    ultimately show ?thesis using a b f(1,2) by (intro conjI exI[of _ "glGenTextures n # es"]) auto
  next
    case False
    with "1.prems" have "st' = st"
      by (subst (asm) DestroyGLTextures_loop.simps) simp
    then show ?thesis by simp
  qed
qed

text \<open>
  Claim C3. \<^verbatim>\<open>DestroyGLTextures\<close> should free each held texture handle once and clear the
  registry. The source does neither: on a registry holding the handles 1 and 2 it
  generates the two new handles 3 and 4 and stores them in the entries, the handles 1
  and 2 stay allocated in the GL context, no \<^verbatim>\<open>glDeleteTextures\<close> call is made and the
  count of entries in use is still 2.
\<close>

theorem DestroyGLTextures_generates_instead_of_freeing:
  "DestroyGLTextures two_textures =
     Inr (two_textures
       \<lparr>m_textureIDs := [\<lparr>ID = 3, tag = ''apple''\<rparr>, \<lparr>ID = 4, tag = ''stem''\<rparr>]
                          @ replicate 14 \<lparr>ID = 0, tag = []\<rparr>,
        gl_texture_names := [1, 2, 3, 4],
        trace := [glGenTextures 3, glGenTextures 4]\<rparr>)
   \<and> m_loadedTextures two_textures = 2"
  by (simp add: DestroyGLTextures_def DestroyGLTextures_loop.simps two_textures_def
      fresh_scene_def glGenTextures1_def Let_def)

text \<open>
  Claim C4. With 16 textures registered, a further load whose image decodes should fail
  with a capacity error. The source has no such check: it generates and uploads the
  texture and then stores into \<^verbatim>\<open>m_textureIDs[16]\<close>, one past the end of the array. The
  model's fault stands for that out-of-bounds store; the call does not return \<^verbatim>\<open>false\<close>.
\<close>

theorem CreateGLTexture_full_registry_overruns:
  "CreateGLTexture decode_rgb ''seventeenth.jpg'' ''extra'' full_scene
     = Inl ArrayIndexOutOfBounds
   \<and> m_loadedTextures full_scene = 16
   \<and> length (m_textureIDs full_scene) = texture_slots"
  by (simp add: CreateGLTexture_def decode_rgb_def full_scene_def fresh_scene_def
      glGenTextures1_def Let_def texture_slots_def)

section \<open>Shader state setters\<close>

text \<open>
  Claim C7. With a shader manager present and the count of entries in use within the
  array, \<^verbatim>\<open>SetShaderTexture(tag)\<close> pushes \<^verbatim>\<open>bUseTexture\<close> as 1 and then pushes, as the
  sampler \<^verbatim>\<open>objectTexture\<close>, the slot that \<^verbatim>\<open>FindTextureSlot\<close> resolves; when no entry in
  use carries the tag that slot is -1. The call never faults.
\<close>

theorem SetShaderTexture_pushes_flag_then_slot:
  assumes "m_pShaderManager st \<noteq> NULL"
    and "m_loadedTextures st \<le> int (length (m_textureIDs st))"
  shows "\<exists>slot. FindTextureSlot textureTag st = Inr slot
      \<and> SetShaderTexture textureTag st =
          Inr (emit [setIntValue ''bUseTexture'' 1, setSampler2DValue ''objectTexture'' slot] st)
      \<and> (textureTag \<notin> set (registered_tags st) \<longrightarrow> slot = - 1)"
  using assms(1) FindTextureSlot_scan[OF assms(2), of textureTag]
  by (simp add: SetShaderTexture_def FindTextureSlot_emit g_UseTextureName_def
      g_TextureValueName_def)

theorem SetShaderTexture_pushes_flag_then_slot_witness:
  "m_pShaderManager two_textures \<noteq> NULL
   \<and> m_loadedTextures two_textures \<le> int (length (m_textureIDs two_textures))
   \<and> ''missing'' \<notin> set (registered_tags two_textures)
   \<and> SetShaderTexture ''missing'' two_textures =
       Inr (emit [setIntValue ''bUseTexture'' 1, setSampler2DValue ''objectTexture'' (- 1)]
              two_textures)"
proof -
  have p: "m_pShaderManager two_textures \<noteq> NULL"
    by (simp add: two_textures_def fresh_scene_def NULL_def)
  have l: "m_loadedTextures two_textures \<le> int (length (m_textureIDs two_textures))"
    by (simp add: two_textures_def fresh_scene_def)
  have m: "''missing'' \<notin> set (registered_tags two_textures)"
    by (simp add: registered_tags_def two_textures_def fresh_scene_def)
  from SetShaderTexture_pushes_flag_then_slot[OF p l, of "''missing''"] m
  show ?thesis using p l by auto
qed

text \<open>
  Claim C10. With a null shader manager pointer, \<^verbatim>\<open>SetTransformations\<close>,
  \<^verbatim>\<open>SetShaderColor\<close>, \<^verbatim>\<open>SetShaderTexture\<close> and \<^verbatim>\<open>SetTextureUVScale\<close> push nothing and leave
  the whole state as it was. \<^verbatim>\<open>SetShaderMaterial\<close> has no such guard: with a material
  defined it calls through the null pointer.
\<close>

theorem null_shader_manager_guarded_no_ops:
  "m_pShaderManager st = NULL \<Longrightarrow>
     SetTransformations scaleXYZ rx ry rz positionXYZ st = st
   \<and> SetShaderColor r g b a st = st
   \<and> SetShaderTexture textureTag st = Inr st
   \<and> SetTextureUVScale u v st = st
   \<and> (m_objectMaterials st \<noteq> [] \<longrightarrow>
        SetShaderMaterial material materialTag st = Inl NullPointerDereference)"
  by (simp add: SetTransformations_def SetShaderColor_def SetShaderTexture_def
      SetTextureUVScale_def SetShaderMaterial_def FindMaterial_def split: prod.splits)

theorem null_shader_manager_guarded_no_ops_witness:
  "m_pShaderManager null_shader_scene = NULL
   \<and> m_objectMaterials null_shader_scene \<noteq> []
   \<and> SetTransformations (vec3 1 1 1) 0 0 0 (vec3 0 0 0) null_shader_scene = null_shader_scene
   \<and> SetShaderColor 1 1 1 1 null_shader_scene = null_shader_scene
   \<and> SetShaderTexture ''apple'' null_shader_scene = Inr null_shader_scene
   \<and> SetTextureUVScale 1 1 null_shader_scene = null_shader_scene
   \<and> SetShaderMaterial goldMaterial ''gold'' null_shader_scene = Inl NullPointerDereference"
proof -
  have h: "m_pShaderManager null_shader_scene = NULL" by (simp add: null_shader_scene_def)
  have m: "m_objectMaterials null_shader_scene \<noteq> []" by (simp add: null_shader_scene_def)
  show ?thesis
    using h m null_shader_manager_guarded_no_ops[OF h, of "vec3 1 1 1" 0 0 0 "vec3 0 0 0"
        1 1 1 1 "''apple''" 1 1 goldMaterial "''gold''"]
    by simp
qed

section \<open>Slots and load order\<close>

text \<open>
  A call of \<^verbatim>\<open>CreateGLTexture\<close> that returns \<^verbatim>\<open>true\<close> has stored its tag in the entry at
  the old count, which was inside the array, and has incremented the count.
\<close>

lemma CreateGLTexture_True:
  assumes "CreateGLTexture decode filename t st = Inr (True, st')"
  shows "0 \<le> m_loadedTextures st \<and> nat (m_loadedTextures st) < length (m_textureIDs st)
       \<and> m_loadedTextures st' = m_loadedTextures st + 1
       \<and> length (m_textureIDs st') = length (m_textureIDs st)
       \<and> registered_tags st' = registered_tags st @ [t]"
proof -
  obtain w h c where d: "decode filename = Some (w, h, c)"
    using assms by (cases "decode filename") (auto simp: CreateGLTexture_def Let_def)
  have n: "0 \<le> m_loadedTextures st \<and> nat (m_loadedTextures st) < length (m_textureIDs st)"
    using assms d
    by (auto simp: CreateGLTexture_def Let_def glGenTextures1_def split: if_splits)
  then have tk: "take (nat (m_loadedTextures st + 1)) ((m_textureIDs st)[nat (m_loadedTextures st) := x])
       = take (nat (m_loadedTextures st)) (m_textureIDs st) @ [x]" for x
    by (simp add: nat_add_distrib take_Suc_conv_app_nth)
  show ?thesis
    using assms d n tk
    by (auto simp: CreateGLTexture_def Let_def glGenTextures1_def registered_tags_def
        split: if_splits)
qed

lemma load_sequence_all_True:
  assumes "load_sequence decode loads st0 = Inr (bs, st)"
    and "\<forall>b \<in> set bs. b = True"
    and "0 \<le> m_loadedTextures st0"
    and "m_loadedTextures st0 \<le> int (length (m_textureIDs st0))"
  shows "m_loadedTextures st = m_loadedTextures st0 + int (length loads)
       \<and> m_loadedTextures st \<le> int (length (m_textureIDs st))
       \<and> length (m_textureIDs st) = length (m_textureIDs st0)
       \<and> registered_tags st = registered_tags st0 @ map snd loads"
  using assms
proof (induction loads arbitrary: st0 bs)
  case Nil
  then show ?case by simp
next
  case (Cons l loads)
  obtain filename t where l: "l = (filename, t)" by (cases l)
  from Cons.prems(1) l obtain b st1 bs' where
    c: "CreateGLTexture decode filename t st0 = Inr (b, st1)"
    and r: "load_sequence decode loads st1 = Inr (bs', st)"
    and bs: "bs = b # bs'"
    by (auto split: sum.splits prod.splits)
  from Cons.prems(2) bs have b: "b = True" and bs': "\<forall>b \<in> set bs'. b = True" by auto
  note f = CreateGLTexture_True[OF c[unfolded b]]
  have "0 \<le> m_loadedTextures st1" "m_loadedTextures st1 \<le> int (length (m_textureIDs st1))"
    using f by auto
  from Cons.IH[OF r bs' this] show ?case using f l by simp
qed

lemma first_index_props:
  assumes "t \<in> set xs"
  shows "length (takeWhile (\<lambda>x. x \<noteq> t) xs) < length xs
       \<and> xs ! length (takeWhile (\<lambda>x. x \<noteq> t) xs) = t
       \<and> (\<forall>j < length (takeWhile (\<lambda>x. x \<noteq> t) xs). xs ! j \<noteq> t)"
  using assms
proof (induction xs)
  case Nil
  then show ?case by simp
next
  case (Cons x xs)
  show ?case
  proof (cases "x = t")
    case True
    then show ?thesis by simp
  next
    case False
    then have "t \<in> set xs" using Cons.prems by simp
    from Cons.IH[OF this] show ?thesis using False
      by (auto simp: nth_Cons split: nat.splits)
  qed
qed

text \<open>
  When every image decodes with 3 or 4 channels and the array has room for all of them,
  every call returns \<^verbatim>\<open>true\<close>.
\<close>

lemma CreateGLTexture_succeeds:
  assumes "decode filename = Some (w, h, c)" and "c = 3 \<or> c = 4"
    and "0 \<le> m_loadedTextures st" and "nat (m_loadedTextures st) < length (m_textureIDs st)"
  shows "\<exists>st'. CreateGLTexture decode filename t st = Inr (True, st')"
  using assms by (auto simp: CreateGLTexture_def Let_def glGenTextures1_def)



lemma load_sequence_succeeds:
  assumes "\<forall>l \<in> set loads. \<exists>w h c. decode (fst l) = Some (w, h, c) \<and> (c = 3 \<or> c = 4)"
    and "0 \<le> m_loadedTextures st0"
    and "m_loadedTextures st0 + int (length loads) \<le> int (length (m_textureIDs st0))"
  shows "\<exists>st. load_sequence decode loads st0 = Inr (replicate (length loads) True, st)"
  using assms
proof (induction loads arbitrary: st0)
  case Nil
  then show ?case by simp
next
  case (Cons l loads)
  obtain filename t where l: "l = (filename, t)" by (cases l)
  from Cons.prems(1) l obtain w h c where
    d: "decode filename = Some (w, h, c)" "c = 3 \<or> c = 4" by auto
  have "nat (m_loadedTextures st0) < length (m_textureIDs st0)"
    using Cons.prems(2,3) by simp
  from CreateGLTexture_succeeds[of decode filename w h c st0 t, OF d Cons.prems(2) this]
  obtain st1 where c: "CreateGLTexture decode filename t st0 = Inr (True, st1)" by blast
  note f = CreateGLTexture_True[OF c]
  have "\<forall>l \<in> set loads. \<exists>w h c. decode (fst l) = Some (w, h, c) \<and> (c = 3 \<or> c = 4)"
    using Cons.prems(1) by simp
  moreover have "0 \<le> m_loadedTextures st1" using f by simp
  moreover have "m_loadedTextures st1 + int (length loads) \<le> int (length (m_textureIDs st1))"
    using f Cons.prems(3) by simp
  ultimately obtain st where "load_sequence decode loads st1 = Inr (replicate (length loads) True, st)"
    using Cons.IH by blast
  then show ?case using c l by simp
qed

text \<open>
  As long as the loads stay inside the array, slots follow load order. Start from a
  registry with no entry in use in the 16-entry array and run a sequence of loads that
  all return \<^verbatim>\<open>true\<close>: the entry in slot \<open>i\<close> carries the tag of the \<open>i\<close>-th load,
  \<^verbatim>\<open>FindTextureSlot(tag)\<close> returns -1 for a tag that was not loaded and otherwise the
  zero-based position of the first load with that tag, and different loaded tags resolve
  to different slots. The bound of 16 in this statement comes from its hypothesis that
  no load left the array; the source itself does not enforce it.
\<close>

lemma load_sequence_in_bounds_slots:
  assumes "length (m_textureIDs st0) = texture_slots"
    and "m_loadedTextures st0 = 0"
    and "load_sequence decode loads st0 = Inr (bs, st)"
    and "\<forall>b \<in> set bs. b = True"
  shows "length loads \<le> 16
     \<and> registered_tags st = map snd loads
     \<and> (\<forall>t. \<exists>slot. FindTextureSlot t st = Inr slot
          \<and> (t \<notin> set (map snd loads) \<longrightarrow> slot = - 1)
          \<and> (t \<in> set (map snd loads) \<longrightarrow>
                0 \<le> slot \<and> slot < 16 \<and> snd (loads ! nat slot) = t
              \<and> (\<forall>j < nat slot. snd (loads ! j) \<noteq> t)))
     \<and> (\<forall>t t'. t \<in> set (map snd loads) \<and> t' \<in> set (map snd loads) \<and> t \<noteq> t'
          \<longrightarrow> FindTextureSlot t st \<noteq> FindTextureSlot t' st)"
proof -
  let ?tags = "map snd loads"
  have r0: "registered_tags st0 = []" using assms(2) by (simp add: registered_tags_def)
  have s: "m_loadedTextures st = int (length loads)"
       "m_loadedTextures st \<le> int (length (m_textureIDs st))"
       "length (m_textureIDs st) = 16"
       "registered_tags st = ?tags"
    using load_sequence_all_True[OF assms(3,4)] assms(1,2) r0
    by (simp_all add: texture_slots_def)
  have len: "length loads \<le> 16" using s(1,2,3) by simp
  have F: "FindTextureSlot t st =
      Inr (if t \<in> set ?tags then int (length (takeWhile (\<lambda>x. x \<noteq> t) ?tags)) else - 1)" for t
    using FindTextureSlot_scan[OF s(2), of t] s(4) by simp
  have P: "t \<in> set ?tags \<Longrightarrow>
      length (takeWhile (\<lambda>x. x \<noteq> t) ?tags) < length loads
    \<and> snd (loads ! length (takeWhile (\<lambda>x. x \<noteq> t) ?tags)) = t
    \<and> (\<forall>j < length (takeWhile (\<lambda>x. x \<noteq> t) ?tags). snd (loads ! j) \<noteq> t)" for t
  proof -
    assume m: "t \<in> set ?tags"
    note p = first_index_props[OF m]
    from p have l: "length (takeWhile (\<lambda>x. x \<noteq> t) ?tags) < length loads" by simp
    from p l have "snd (loads ! length (takeWhile (\<lambda>x. x \<noteq> t) ?tags)) = t" by simp
    moreover have "\<forall>j < length (takeWhile (\<lambda>x. x \<noteq> t) ?tags). snd (loads ! j) \<noteq> t"
    proof (intro allI impI)
      fix j assume j: "j < length (takeWhile (\<lambda>x. x \<noteq> t) ?tags)"
      then have "?tags ! j \<noteq> t" using p by blast
      moreover have "j < length loads" using j l by simp
      ultimately show "snd (loads ! j) \<noteq> t" by simp
    qed
    ultimately show ?thesis using l by blast
  qed
  have A: "\<forall>t. \<exists>slot. FindTextureSlot t st = Inr slot
          \<and> (t \<notin> set ?tags \<longrightarrow> slot = - 1)
          \<and> (t \<in> set ?tags \<longrightarrow>
                0 \<le> slot \<and> slot < 16 \<and> snd (loads ! nat slot) = t
              \<and> (\<forall>j < nat slot. snd (loads ! j) \<noteq> t))"
  proof
    fix t
    show "\<exists>slot. FindTextureSlot t st = Inr slot
          \<and> (t \<notin> set ?tags \<longrightarrow> slot = - 1)
          \<and> (t \<in> set ?tags \<longrightarrow>
                0 \<le> slot \<and> slot < 16 \<and> snd (loads ! nat slot) = t
              \<and> (\<forall>j < nat slot. snd (loads ! j) \<noteq> t))"
    proof (cases "t \<in> set ?tags")
      case True
      from P[OF True] len show ?thesis using True by (simp add: F)
    next
      case False
      then show ?thesis by (simp add: F)
    qed
  qed
  have B: "\<forall>t t'. t \<in> set ?tags \<and> t' \<in> set ?tags \<and> t \<noteq> t'
          \<longrightarrow> FindTextureSlot t st \<noteq> FindTextureSlot t' st"
  proof (intro allI impI)
    fix t t' assume h: "t \<in> set ?tags \<and> t' \<in> set ?tags \<and> t \<noteq> t'"
    from h P[of t] P[of t'] show "FindTextureSlot t st \<noteq> FindTextureSlot t' st"
      by (auto simp: F)
  qed
  from len s(4) A B show ?thesis by blast
qed

lemma load_sequence_three_loads_example:
  "length (m_textureIDs fresh_scene) = texture_slots
   \<and> m_loadedTextures fresh_scene = 0
   \<and> (\<exists>st. load_sequence decode_rgb
            [(''a.jpg'', ''apple''), (''b.jpg'', ''stem''), (''c.jpg'', ''apple'')] fresh_scene
          = Inr ([True, True, True], st)
        \<and> registered_tags st = [''apple'', ''stem'', ''apple'']
        \<and> FindTextureSlot ''apple'' st = Inr 0
        \<and> FindTextureSlot ''stem'' st = Inr 1
        \<and> FindTextureSlot ''missing'' st = Inr (- 1))"
proof -
  let ?loads = "[(''a.jpg'', ''apple''), (''b.jpg'', ''stem''), (''c.jpg'', ''apple'')]"
  have a: "length (m_textureIDs fresh_scene) = texture_slots"
    by (simp add: fresh_scene_def texture_slots_def)
  have b: "m_loadedTextures fresh_scene = 0" by (simp add: fresh_scene_def)
  have "\<exists>st. load_sequence decode_rgb ?loads fresh_scene
          = Inr (replicate (length ?loads) True, st)"
  proof (rule load_sequence_succeeds)
    show "\<forall>l\<in>set ?loads. \<exists>w h c. decode_rgb (fst l) = Some (w, h, c) \<and> (c = 3 \<or> c = 4)"
      by (simp add: decode_rgb_def)
    show "0 \<le> m_loadedTextures fresh_scene" by (simp add: fresh_scene_def)
    show "m_loadedTextures fresh_scene + int (length ?loads)
        \<le> int (length (m_textureIDs fresh_scene))" by (simp add: fresh_scene_def)
  qed
  then obtain st where
    r: "load_sequence decode_rgb ?loads fresh_scene = Inr ([True, True, True], st)"
    by (auto simp: numeral_3_eq_3)
  have t: "\<forall>b \<in> set [True, True, True]. b = True" by simp
  note k = load_sequence_in_bounds_slots[OF a b r t]
  from k have tags: "registered_tags st = [''apple'', ''stem'', ''apple'']" by simp
  have inv: "m_loadedTextures st \<le> int (length (m_textureIDs st))"
    using load_sequence_all_True[OF r t] a b by simp
  have A: "FindTextureSlot ''apple'' st = Inr 0"
    using FindTextureSlot_scan[OF inv, of "''apple''"] tags by simp
  have B: "FindTextureSlot ''stem'' st = Inr 1"
    using FindTextureSlot_scan[OF inv, of "''stem''"] tags by simp
  have C: "FindTextureSlot ''missing'' st = Inr (- 1)"
    using FindTextureSlot_scan[OF inv, of "''missing''"] tags by simp
  show ?thesis using a b r tags A B C by blast
qed

text \<open>
  A sequence of loads runs its first part and then the rest; a load whose image decodes
  while the count is outside the array stores outside the array.
\<close>

lemma load_sequence_append:
  "load_sequence decode (xs @ ys) st =
     (case load_sequence decode xs st of
        Inl e \<Rightarrow> Inl e
      | Inr (bs, st') \<Rightarrow>
          (case load_sequence decode ys st' of
             Inl e \<Rightarrow> Inl e
           | Inr (bs', st'') \<Rightarrow> Inr (bs @ bs', st'')))"
proof (induction xs arbitrary: st)
  case Nil
  show ?case by (simp split: sum.splits prod.splits)
next
  case (Cons l xs)
  obtain filename t where l: "l = (filename, t)" by (cases l)
  show ?case
    by (simp add: l Cons.IH split: sum.splits prod.splits)
qed

lemma CreateGLTexture_overruns:
  assumes "decode filename = Some (w, h, c)" and "c = 3 \<or> c = 4"
    and "\<not> (0 \<le> m_loadedTextures st \<and> nat (m_loadedTextures st) < length (m_textureIDs st))"
  shows "CreateGLTexture decode filename t st = Inl ArrayIndexOutOfBounds"
  using assms by (auto simp: CreateGLTexture_def Let_def glGenTextures1_def)

text \<open>
  Claim C6. After every sequence of successful texture loads all assigned slots should
  be distinct and within [0,16). The source does not keep that bound: \<^verbatim>\<open>CreateGLTexture\<close>
  has no capacity test. Sixteen loads of decodable images fill the slots 0 to 15 and
  each returns \<^verbatim>\<open>true\<close>; the seventeenth load of a decodable image stores its entry at
  \<^verbatim>\<open>m_textureIDs[16]\<close>, outside the 16-entry array, so the slot it assigns is 16. The
  model's fault stands for that out-of-bounds store.
\<close>

theorem load_sequence_seventeenth_load_overruns:
  "(\<exists>st. load_sequence decode_rgb (replicate 16 (''texture.jpg'', ''t'')) fresh_scene
            = Inr (replicate 16 True, st)
          \<and> m_loadedTextures st = 16
          \<and> length (m_textureIDs st) = texture_slots
          \<and> CreateGLTexture decode_rgb ''texture.jpg'' ''seventeenth'' st
              = Inl ArrayIndexOutOfBounds)
   \<and> load_sequence decode_rgb
        (replicate 16 (''texture.jpg'', ''t'') @ [(''texture.jpg'', ''seventeenth'')])
        fresh_scene
      = Inl ArrayIndexOutOfBounds"
proof -
  let ?loads = "replicate 16 (''texture.jpg'', ''t'')"
  have "\<exists>st. load_sequence decode_rgb ?loads fresh_scene
          = Inr (replicate (length ?loads) True, st)"
  proof (rule load_sequence_succeeds)
    show "\<forall>l\<in>set ?loads. \<exists>w h c. decode_rgb (fst l) = Some (w, h, c) \<and> (c = 3 \<or> c = 4)"
      by (simp add: decode_rgb_def)
    show "0 \<le> m_loadedTextures fresh_scene" by (simp add: fresh_scene_def)
    show "m_loadedTextures fresh_scene + int (length ?loads)
        \<le> int (length (m_textureIDs fresh_scene))" by (simp add: fresh_scene_def)
  qed
  then obtain st where
    r: "load_sequence decode_rgb ?loads fresh_scene = Inr (replicate 16 True, st)"
    by auto
  have t: "\<forall>b \<in> set (replicate 16 True). b = True" by simp
  have z: "0 \<le> m_loadedTextures fresh_scene"
    "m_loadedTextures fresh_scene \<le> int (length (m_textureIDs fresh_scene))"
    by (simp_all add: fresh_scene_def)
  from load_sequence_all_True[OF r t z]
  have n: "m_loadedTextures st = 16" and len: "length (m_textureIDs st) = texture_slots"
    by (simp_all add: fresh_scene_def texture_slots_def)
  have d: "decode_rgb ''texture.jpg'' = Some (64, 64, 3)" by (simp add: decode_rgb_def)
  have full: "\<not> (0 \<le> m_loadedTextures st \<and> nat (m_loadedTextures st) < length (m_textureIDs st))"
    using n len by (simp add: texture_slots_def)
  have c: "CreateGLTexture decode_rgb ''texture.jpg'' ''seventeenth'' st = Inl ArrayIndexOutOfBounds"
    using CreateGLTexture_overruns[of decode_rgb "''texture.jpg''" 64 64 3 st "''seventeenth''", OF d _ full]
    by simp
  have "load_sequence decode_rgb (?loads @ [(''texture.jpg'', ''seventeenth'')]) fresh_scene
      = Inl ArrayIndexOutOfBounds"
    by (simp add: load_sequence_append r c)
  with r n len c show ?thesis by blast
qed

section \<open>Transform composition\<close>











section \<open>Rendering twice\<close>

text \<open>
  In a state with a shader manager, the count within the array and every material tag
  of the call list defined, each call appends a fixed list of events to the trace and
  changes nothing else; the list depends neither on the trace nor on the indeterminate
  local of \<^verbatim>\<open>SetShaderMaterial\<close>.
\<close>

lemma trace_update_emit:
  "st\<lparr>trace := tr\<rparr>\<lparr>trace := tr @ es\<rparr> = emit es (st\<lparr>trace := tr\<rparr>)"
  by (simp add: emit_def)

lemma FindMaterial_trace [simp]:
  "FindMaterial t out (st\<lparr>trace := tr\<rparr>) = FindMaterial t out st"
  by (simp add: FindMaterial_def)

lemma FindTextureSlot_trace:
  "FindTextureSlot t (st\<lparr>trace := tr\<rparr>) = FindTextureSlot t (st\<lparr>trace := []\<rparr>)"
proof -
  have "st\<lparr>trace := tr\<rparr> = emit tr (st\<lparr>trace := []\<rparr>)" by (simp add: emit_def)
  then show ?thesis by (simp only: FindTextureSlot_emit)
qed

lemma find_tag_Some:
  "t \<in> OBJECT_MATERIAL.tag ` set ms \<Longrightarrow> \<exists>m. find (\<lambda>m. OBJECT_MATERIAL.tag m = t) ms = Some m"
  by (induction ms) auto

lemma SetShaderMaterial_defined:
  assumes "m_pShaderManager st \<noteq> NULL"
    and "t \<in> OBJECT_MATERIAL.tag ` set (m_objectMaterials st)"
  shows "\<exists>es. issued_draws es = [] \<and>
    (\<forall>u tr. SetShaderMaterial u t (st\<lparr>trace := tr\<rparr>) = Inr (st\<lparr>trace := tr @ es\<rparr>))"
proof -
  from find_tag_Some[OF assms(2)] obtain m where
    f: "find (\<lambda>m. OBJECT_MATERIAL.tag m = t) (m_objectMaterials st) = Some m" by blast
  then have ne: "m_objectMaterials st \<noteq> []" by auto
  show ?thesis
    using assms(1) ne FindMaterial_finds_first[OF f]
    by (intro exI[of _ "[setVec3Value ''material.ambientColor'' (ambientColor m),
        setFloatValue ''material.ambientStrength'' (ambientStrength m),
        setVec3Value ''material.diffuseColor'' (diffuseColor m),
        setVec3Value ''material.specularColor'' (specularColor m),
        setFloatValue ''material.shininess'' (shininess m)]"])
       (simp add: SetShaderMaterial_def emit_def)
qed

lemma SetShaderTexture_prepared:
  assumes "m_pShaderManager st \<noteq> NULL"
    and "m_loadedTextures st \<le> int (length (m_textureIDs st))"
  shows "\<exists>es. issued_draws es = [] \<and>
    (\<forall>tr. SetShaderTexture t (st\<lparr>trace := tr\<rparr>) = Inr (st\<lparr>trace := tr @ es\<rparr>))"
proof -
  have inv: "m_loadedTextures (st\<lparr>trace := []\<rparr>) \<le> int (length (m_textureIDs (st\<lparr>trace := []\<rparr>)))"
    using assms(2) by simp
  from FindTextureSlot_scan[OF inv, of t] obtain slot where
    s: "FindTextureSlot t (st\<lparr>trace := []\<rparr>) = Inr slot" by blast
  have "\<forall>tr. SetShaderTexture t (st\<lparr>trace := tr\<rparr>) =
      Inr (st\<lparr>trace := tr @ [setIntValue g_UseTextureName 1, setSampler2DValue g_TextureValueName slot]\<rparr>)"
  proof
    fix tr
    have "FindTextureSlot t (emit [setIntValue g_UseTextureName 1] (st\<lparr>trace := tr\<rparr>)) = Inr slot"
      using s FindTextureSlot_trace[of t tr st] by (simp add: FindTextureSlot_emit)
    then show "SetShaderTexture t (st\<lparr>trace := tr\<rparr>) =
      Inr (st\<lparr>trace := tr @ [setIntValue g_UseTextureName 1, setSampler2DValue g_TextureValueName slot]\<rparr>)"
      using assms(1) by (simp add: SetShaderTexture_def Let_def emit_def)
  qed
  then show ?thesis
    by (intro exI[of _ "[setIntValue g_UseTextureName 1, setSampler2DValue g_TextureValueName slot]"])
       simp
qed

lemma issued_draws_append: "issued_draws (es @ es') = issued_draws es @ issued_draws es'"
  by (induction es rule: issued_draws.induct) simp_all

lemma exec_call_prepared:
  assumes "m_pShaderManager st \<noteq> NULL"
    and "m_loadedTextures st \<le> int (length (m_textureIDs st))"
    and "set (material_tags [c]) \<subseteq> OBJECT_MATERIAL.tag ` set (m_objectMaterials st)"
  shows "\<exists>es. issued_draws es = drawn_meshes [c] \<and>
    (\<forall>u tr. exec_call u c (st\<lparr>trace := tr\<rparr>) = Inr (st\<lparr>trace := tr @ es\<rparr>))"
proof (cases c)
  case (call_SetTransformations s rx ry rz p)
  then show ?thesis using assms(1)
    by (intro exI[of _ "[setMat4Value g_ModelName (modelView s rx ry rz p)]"])
       (simp add: SetTransformations_def emit_def)
next
  case (call_SetShaderColor r g b a)
  then show ?thesis using assms(1)
    by (intro exI[of _ "[setIntValue g_UseTextureName 0, setVec4Value g_ColorValueName (vec4 r g b a)]"])
       (simp add: SetShaderColor_def emit_def)
next
  case (call_SetShaderMaterial t)
  then have "t \<in> OBJECT_MATERIAL.tag ` set (m_objectMaterials st)" using assms(3) by simp
  from SetShaderMaterial_defined[OF assms(1) this] show ?thesis
    using call_SetShaderMaterial by simp
next
  case (call_SetShaderTexture t)
  from SetShaderTexture_prepared[OF assms(1,2), of t] show ?thesis
    using call_SetShaderTexture by simp
next
  case (call_DrawMesh k)
  then show ?thesis by (intro exI[of _ "[DrawMesh k]"]) (simp add: emit_def)
qed

lemma material_tags_Cons:
  "set (material_tags (c # cs)) = set (material_tags [c]) \<union> set (material_tags cs)"
  by (cases c) auto

lemma exec_calls_prepared:
  assumes "m_pShaderManager st \<noteq> NULL"
    and "m_loadedTextures st \<le> int (length (m_textureIDs st))"
    and "set (material_tags cs) \<subseteq> OBJECT_MATERIAL.tag ` set (m_objectMaterials st)"
  shows "\<exists>es. issued_draws es = drawn_meshes cs \<and>
    (\<forall>u k tr. exec_calls u k cs (st\<lparr>trace := tr\<rparr>) = Inr (st\<lparr>trace := tr @ es\<rparr>))"
  using assms(3)
proof (induction cs)
  case Nil
  show ?case by (intro exI[of _ "[]"]) simp
next
  case (Cons c cs)
  from Cons.prems have c: "set (material_tags [c]) \<subseteq> OBJECT_MATERIAL.tag ` set (m_objectMaterials st)"
    and cs: "set (material_tags cs) \<subseteq> OBJECT_MATERIAL.tag ` set (m_objectMaterials st)"
    using material_tags_Cons[of c cs] by auto
  from exec_call_prepared[OF assms(1,2) c] obtain es1 where
    d1: "issued_draws es1 = drawn_meshes [c]" and
    e1: "\<And>u tr. exec_call u c (st\<lparr>trace := tr\<rparr>) = Inr (st\<lparr>trace := tr @ es1\<rparr>)" by blast
  from Cons.IH[OF cs] obtain es2 where
    d2: "issued_draws es2 = drawn_meshes cs" and
    e2: "\<And>u k tr. exec_calls u k cs (st\<lparr>trace := tr\<rparr>) = Inr (st\<lparr>trace := tr @ es2\<rparr>)" by blast
  have d: "drawn_meshes (c # cs) = drawn_meshes [c] @ drawn_meshes cs" by (cases c) simp_all
  show ?case
    by (intro exI[of _ "es1 @ es2"]) (simp add: e1 e2 d d1 d2 and_then_def issued_draws_append)
qed

lemma RenderScene_prepared:
  assumes "m_pShaderManager st \<noteq> NULL"
    and "m_loadedTextures st \<le> int (length (m_textureIDs st))"
    and "{''polishWood'', ''appleskin'', ''wood'', ''polishClay''}
          \<subseteq> OBJECT_MATERIAL.tag ` set (m_objectMaterials st)"
  shows "\<exists>es. issued_draws es =
        [PlaneMesh, SphereMesh, CylinderMesh, CylinderMesh, SphereMesh, TorusMesh, CylinderMesh,
         BoxMesh, BoxMesh, TaperedCylinderMesh, TorusMesh] \<and>
    (\<forall>u tr. RenderScene u (st\<lparr>trace := tr\<rparr>) = Inr (st\<lparr>trace := tr @ es\<rparr>))"
proof -
  have "material_tags RenderScene_calls =
      [''polishWood'', ''appleskin'', ''wood'', ''polishClay'', ''polishClay'', ''polishClay'',
       ''polishClay'', ''wood'', ''wood'', ''polishClay'', ''polishClay'']"
    by (simp add: RenderScene_calls_def)
  with assms(3) have "set (material_tags RenderScene_calls) \<subseteq> OBJECT_MATERIAL.tag ` set (m_objectMaterials st)"
    by simp
  from exec_calls_prepared[OF assms(1,2) this] obtain es where
    d: "issued_draws es = drawn_meshes RenderScene_calls" and
    e: "\<And>u k tr. exec_calls u k RenderScene_calls (st\<lparr>trace := tr\<rparr>)
          = Inr (st\<lparr>trace := tr @ es\<rparr>)" by blast
  have "drawn_meshes RenderScene_calls =
        [PlaneMesh, SphereMesh, CylinderMesh, CylinderMesh, SphereMesh, TorusMesh, CylinderMesh,
         BoxMesh, BoxMesh, TaperedCylinderMesh, TorusMesh]"
    by (simp add: RenderScene_calls_def)
  with d e show ?thesis by (intro exI[of _ es]) (simp add: RenderScene_def)
qed

text \<open>What a successful \<^verbatim>\<open>PrepareScene\<close> establishes, and when it succeeds.\<close>

lemma BindGLTextures_loop_Inr:
  "BindGLTextures_loop i st = Inr st' \<Longrightarrow> i \<le> length (m_textureIDs st) \<Longrightarrow>
   m_loadedTextures st \<le> int (length (m_textureIDs st)) \<and> (\<exists>es. st' = emit es st)"
proof (induction i st rule: BindGLTextures_loop.induct)
  case (1 i st)
  show ?case
  proof (cases "int i < m_loadedTextures st")
    case True
    with "1.prems"(1) have il: "i < length (m_textureIDs st)"
      by (subst (asm) BindGLTextures_loop.simps) (simp split: if_splits)
    let ?st1 = "emit [glActiveTexture i, glBindTexture (ID (m_textureIDs st ! i))] st"
    from "1.prems"(1) True il have r: "BindGLTextures_loop (i + 1) ?st1 = Inr st'"
      by (subst (asm) BindGLTextures_loop.simps) simp
    have "i + 1 \<le> length (m_textureIDs ?st1)" using il by simp
    from "1.IH"[OF True il r this] obtain es where
      "m_loadedTextures st \<le> int (length (m_textureIDs st))" "st' = emit es ?st1" by auto
    then show ?thesis
      by (intro conjI exI[of _ "[glActiveTexture i, glBindTexture (ID (m_textureIDs st ! i))] @ es"])
         (simp_all add: emit_def)
  next
    case False
    with "1.prems" show ?thesis
      by (subst (asm) BindGLTextures_loop.simps) (auto intro: exI[of _ "[]"] simp: emit_def)
  qed
qed

lemma BindGLTextures_loop_succeeds:
  "m_loadedTextures st \<le> int (length (m_textureIDs st)) \<Longrightarrow>
   \<exists>st'. BindGLTextures_loop i st = Inr st'"
proof (induction i st rule: BindGLTextures_loop.induct)
  case (1 i st)
  show ?case
  proof (cases "int i < m_loadedTextures st")
    case True
    then have il: "i < length (m_textureIDs st)" using "1.prems" by simp
    let ?st1 = "emit [glActiveTexture i, glBindTexture (ID (m_textureIDs st ! i))] st"
    have "m_loadedTextures ?st1 \<le> int (length (m_textureIDs ?st1))" using "1.prems" by simp
    from "1.IH"[OF True il this] show ?thesis
      using True il by (subst BindGLTextures_loop.simps) simp
  next
    case False
    then show ?thesis by (subst BindGLTextures_loop.simps) simp
  qed
qed

lemma CreateGLTexture_keeps:
  "CreateGLTexture decode filename t st = Inr (b, st') \<Longrightarrow>
   m_pShaderManager st' = m_pShaderManager st \<and> m_objectMaterials st' = m_objectMaterials st"
  by (auto simp: CreateGLTexture_def Let_def glGenTextures1_def
      split: option.splits if_splits)

lemma LoadSceneTextures_load_sequence:
  "LoadSceneTextures decode st =
     (case load_sequence decode
        [(''../../Utilities/textures/green_apple.jpg'', ''apple''),
         (''../../Utilities/textures/apple_stem.jpg'', ''stem''),
         (''../../Utilities/textures/rusticwood.jpg'', ''table''),
         (''../../Utilities/textures/ceramic1.jpg'', ''ceramic''),
         (''../../Utilities/textures/white_cardboard.jpg'', ''cardboard'')] st of
        Inl e \<Rightarrow> Inl e
      | Inr (bs, st') \<Rightarrow> BindGLTextures st')"
  by (simp add: LoadSceneTextures_def and_then_def ignore_result_def
      split: sum.splits prod.splits)

lemma LoadSceneTextures_Inr:
  assumes "LoadSceneTextures decode st = Inr st'"
  shows "m_loadedTextures st' \<le> int (length (m_textureIDs st'))"
proof -
  from assms obtain st5 where b: "BindGLTextures st5 = Inr st'"
    by (auto simp: LoadSceneTextures_load_sequence split: sum.splits prod.splits)
  from BindGLTextures_loop_Inr[OF b[unfolded BindGLTextures_def]] obtain es where
    "m_loadedTextures st5 \<le> int (length (m_textureIDs st5))" "st' = emit es st5" by auto
  then show ?thesis by simp
qed

lemma PrepareScene_Inr:
  assumes "PrepareScene decode st0 = Inr st"
  shows "m_pShaderManager st \<noteq> NULL
       \<and> m_loadedTextures st \<le> int (length (m_textureIDs st))
       \<and> {''polishWood'', ''appleskin'', ''wood'', ''polishClay''}
            \<subseteq> OBJECT_MATERIAL.tag ` set (m_objectMaterials st)"
proof -
  from assms obtain st1 st3 where
    l: "LoadSceneTextures decode st0 = Inr st1"
    and s: "SetupSceneLights (DefineObjectMaterials st1) = Inr st3"
    and e: "\<exists>es. st = emit es st3"
    by (auto simp: PrepareScene_def and_then_def split: sum.splits)
  from s have p: "m_pShaderManager (DefineObjectMaterials st1) \<noteq> NULL"
    and e3: "\<exists>es. st3 = emit es (DefineObjectMaterials st1)"
    by (auto simp: SetupSceneLights_def split: if_splits)
  note inv = LoadSceneTextures_Inr[OF l]
  have m: "{''polishWood'', ''appleskin'', ''wood'', ''polishClay''}
            \<subseteq> OBJECT_MATERIAL.tag ` set (m_objectMaterials (DefineObjectMaterials st1))"
    by (simp add: DefineObjectMaterials_def goldMaterial_def appleMaterial_def
        cementMaterial_def woodMaterial_def polishwoodMaterial_def tileMaterial_def
        glassMaterial_def clayMaterial_def polishclayMaterial_def)
  have i: "m_loadedTextures (DefineObjectMaterials st1)
      \<le> int (length (m_textureIDs (DefineObjectMaterials st1)))"
    using inv by (simp add: DefineObjectMaterials_def)
  from e e3 p m i show ?thesis by auto
qed

lemma load_sequence_keeps:
  "load_sequence decode loads st0 = Inr (bs, st) \<Longrightarrow>
   m_pShaderManager st = m_pShaderManager st0 \<and> m_objectMaterials st = m_objectMaterials st0"
proof (induction loads arbitrary: st0 bs)
  case Nil
  then show ?case by simp
next
  case (Cons l loads)
  obtain filename t where l: "l = (filename, t)" by (cases l)
  from Cons.prems l obtain b st1 bs' where
    c: "CreateGLTexture decode filename t st0 = Inr (b, st1)"
    and r: "load_sequence decode loads st1 = Inr (bs', st)"
    by (auto split: sum.splits prod.splits)
  from Cons.IH[OF r] CreateGLTexture_keeps[OF c] show ?case by simp
qed

lemma PrepareScene_succeeds:
  assumes "m_pShaderManager st0 \<noteq> NULL"
    and "0 \<le> m_loadedTextures st0"
    and "m_loadedTextures st0 + 5 \<le> int (length (m_textureIDs st0))"
    and "\<forall>f. \<exists>w h c. decode f = Some (w, h, c) \<and> (c = 3 \<or> c = 4)"
  shows "\<exists>st. PrepareScene decode st0 = Inr st"
proof -
  let ?loads = "[(''../../Utilities/textures/green_apple.jpg'', ''apple''),
         (''../../Utilities/textures/apple_stem.jpg'', ''stem''),
         (''../../Utilities/textures/rusticwood.jpg'', ''table''),
         (''../../Utilities/textures/ceramic1.jpg'', ''ceramic''),
         (''../../Utilities/textures/white_cardboard.jpg'', ''cardboard'')]"
  have "\<exists>st. load_sequence decode ?loads st0 = Inr (replicate (length ?loads) True, st)"
  proof (rule load_sequence_succeeds)
    show "\<forall>l\<in>set ?loads. \<exists>w h c. decode (fst l) = Some (w, h, c) \<and> (c = 3 \<or> c = 4)"
      using assms(4) by blast
    show "0 \<le> m_loadedTextures st0" by (rule assms(2))
    show "m_loadedTextures st0 + int (length ?loads) \<le> int (length (m_textureIDs st0))"
      using assms(3) by simp
  qed
  then obtain bs st5 where ls: "load_sequence decode ?loads st0 = Inr (bs, st5)"
    and bs: "\<forall>b \<in> set bs. b = True" by auto
  have i0: "m_loadedTextures st0 \<le> int (length (m_textureIDs st0))" using assms(3) by simp
  from load_sequence_all_True[OF ls bs assms(2) i0]
  have inv5: "m_loadedTextures st5 \<le> int (length (m_textureIDs st5))" by simp
  have p5: "m_pShaderManager st5 = m_pShaderManager st0"
    using load_sequence_keeps[OF ls] by simp
  from BindGLTextures_loop_succeeds[OF inv5, of 0] obtain st1 where
    b: "BindGLTextures st5 = Inr st1" by (auto simp: BindGLTextures_def)
  from BindGLTextures_loop_Inr[OF b[unfolded BindGLTextures_def]] obtain es where
    "st1 = emit es st5" by auto
  then have p1: "m_pShaderManager st1 \<noteq> NULL" using p5 assms(1) by simp
  have l: "LoadSceneTextures decode st0 = Inr st1"
    using ls b by (simp add: LoadSceneTextures_load_sequence)
  show ?thesis
    using l p1
    by (simp add: PrepareScene_def and_then_def SetupSceneLights_def DefineObjectMaterials_def)
qed

text \<open>
  Claim C9. In every state that \<^verbatim>\<open>PrepareScene\<close> establishes, \<^verbatim>\<open>RenderScene\<close> returns, and
  two consecutive calls issue the same ordered list of events (every model matrix,
  colour, material and sampler push and every mesh draw); each call changes nothing but
  the trace, so the texture and material registries are as they were. The meshes drawn
  are the eleven of the scene, in source order.
\<close>

theorem RenderScene_twice_same_events:
  assumes "PrepareScene decode st0 = Inr st"
  shows "\<exists>es. RenderScene uninit st = Inr (emit es st)
            \<and> RenderScene uninit' (emit es st) = Inr (emit es (emit es st))
            \<and> issued_draws es =
                [PlaneMesh, SphereMesh, CylinderMesh, CylinderMesh, SphereMesh, TorusMesh,
                 CylinderMesh, BoxMesh, BoxMesh, TaperedCylinderMesh, TorusMesh]"
proof -
  from PrepareScene_Inr[OF assms] RenderScene_prepared[of st] obtain es where
    d: "issued_draws es =
        [PlaneMesh, SphereMesh, CylinderMesh, CylinderMesh, SphereMesh, TorusMesh, CylinderMesh,
         BoxMesh, BoxMesh, TaperedCylinderMesh, TorusMesh]" and
    r: "\<And>u tr. RenderScene u (st\<lparr>trace := tr\<rparr>) = Inr (st\<lparr>trace := tr @ es\<rparr>)" by blast
  have "RenderScene uninit st = Inr (emit es st)"
    using r[of uninit "trace st"] by (simp add: emit_def)
  moreover have "RenderScene uninit' (emit es st) = Inr (emit es (emit es st))"
    using r[of uninit' "trace st @ es"] by (simp add: emit_def)
  ultimately show ?thesis using d by blast
qed

theorem RenderScene_twice_same_events_witness:
  "\<exists>st. PrepareScene decode_rgb fresh_scene = Inr st
     \<and> (\<exists>es. RenderScene (\<lambda>k. goldMaterial) st = Inr (emit es st)
            \<and> RenderScene (\<lambda>k. woodMaterial) (emit es st) = Inr (emit es (emit es st))
            \<and> issued_draws es =
                [PlaneMesh, SphereMesh, CylinderMesh, CylinderMesh, SphereMesh, TorusMesh,
                 CylinderMesh, BoxMesh, BoxMesh, TaperedCylinderMesh, TorusMesh])"
proof -
  have "\<exists>st. PrepareScene decode_rgb fresh_scene = Inr st"
  proof (rule PrepareScene_succeeds)
    show "m_pShaderManager fresh_scene \<noteq> NULL" by (simp add: fresh_scene_def NULL_def)
    show "0 \<le> m_loadedTextures fresh_scene" by (simp add: fresh_scene_def)
    show "m_loadedTextures fresh_scene + 5 \<le> int (length (m_textureIDs fresh_scene))"
      by (simp add: fresh_scene_def)
    show "\<forall>f. \<exists>w h c. decode_rgb f = Some (w, h, c) \<and> (c = 3 \<or> c = 4)"
      by (simp add: decode_rgb_def)
  qed
  then obtain st where p: "PrepareScene decode_rgb fresh_scene = Inr st" by blast
  from RenderScene_twice_same_events[OF p, of "\<lambda>k. goldMaterial" "\<lambda>k. woodMaterial"] p show ?thesis by blast
qed

end
